theory Spec2Isabelle
  imports Main "HOL-Library.Sublist" "HOL-Library.AList"
begin

section \<open>JavaScript values used by gitsync.js\<close>

text \<open>
  Strings are character lists. The string methods whose result is fixed by the
  text of the source are modelled on them: \<open>includes\<close> (the library's
  \<open>sublist\<close>), \<open>replace\<close> with a string pattern (first occurrence only),
  \<open>replace\<close> with a global literal pattern, \<open>split\<close> on a one-character
  separator, and the rendering of a non-negative integer inside a template
  literal.

  \<open>toLowerCase\<close> and \<open>trim\<close> follow the Unicode tables of the JavaScript
  runtime, which are not part of the repository: they are parameters, and every
  general statement below holds for whatever functions the runtime supplies.
\<close>

record runtime =
  toLowerCase :: "string \<Rightarrow> string"
  trim :: "string \<Rightarrow> string"

fun replace_first :: "string \<Rightarrow> string \<Rightarrow> string \<Rightarrow> string" where
  "replace_first pat rep [] = (if pat = [] then rep else [])"
| "replace_first pat rep (c # cs) =
     (if prefix pat (c # cs) then rep @ drop (length pat) (c # cs)
      else c # replace_first pat rep cs)"

fun replace_all :: "string \<Rightarrow> string \<Rightarrow> nat \<Rightarrow> string \<Rightarrow> string" where
  "replace_all pat rep skip [] = []"
| "replace_all pat rep (Suc k) (c # cs) = replace_all pat rep k cs"
| "replace_all pat rep 0 (c # cs) =
     (if pat \<noteq> [] \<and> prefix pat (c # cs) then rep @ replace_all pat rep (length pat - 1) cs
      else c # replace_all pat rep 0 cs)"

fun split_on :: "char \<Rightarrow> string \<Rightarrow> string list" where
  "split_on sep [] = [[]]"
| "split_on sep (c # cs) =
     (if c = sep then [] # split_on sep cs
      else (case split_on sep cs of
              [] \<Rightarrow> [[c]]
            | r # rs \<Rightarrow> (c # r) # rs))"

function string_of_nat :: "nat \<Rightarrow> string" where
  "string_of_nat n =
     (if n < 10 then [''0123456789'' ! n]
      else string_of_nat (n div 10) @ [''0123456789'' ! (n mod 10)])"
  by pat_completeness auto
termination
  by (relation "measure id") auto

declare string_of_nat.simps [simp del]

text \<open>Truthiness of a value that is a string, \<open>null\<close> or \<open>undefined\<close>.\<close>

definition truthy :: "string option \<Rightarrow> bool" where
  "truthy v = (case v of None \<Rightarrow> False | Some s \<Rightarrow> s \<noteq> [])"

text \<open>A template literal renders \<open>undefined\<close> as the word itself.\<close>

definition interp :: "string option \<Rightarrow> string" where
  "interp v = (case v of None \<Rightarrow> ''undefined'' | Some s \<Rightarrow> s)"

text \<open>
  A timestamp is the time value of \<open>new Date(field)\<close>; \<open>None\<close> is the invalid
  date, whose time value is NaN and compares false with everything.
\<close>

type_synonym js_date = "int option"

definition date_gt :: "js_date \<Rightarrow> js_date \<Rightarrow> bool" where
  "date_gt a b = (case (a, b) of (Some x, Some y) \<Rightarrow> y < x | _ \<Rightarrow> False)"

text \<open>
  A plain object with string keys and string values is an association list of its
  own properties in the order of \<open>Object.keys\<close>.
\<close>

type_synonym js_object = "(string \<times> string) list"


section \<open>The configuration and the two trackers' data\<close>

record user =
  login :: string
  html_url :: string

record label =
  name :: "string option"

record issue =
  number :: nat
  title :: string
  body :: "string option"
  state :: string
  url :: string
  repository_url :: string
  user :: user
  labels :: "label list option"
  assignee :: "user option"
  updated_at :: js_date

record comment =
  comment_id :: nat
  comment_body :: "string option"
  comment_html_url :: string
  comment_user :: user

record repository =
  full_name :: string

record mappings =
  handles :: "js_object option"

record ado_config =
  project :: string
  wit :: string
  states :: js_object
  areaPath :: "string option"
  iterationPath :: "string option"
  assignedTo :: "string option"
  bypassRules :: bool
  autoCreate :: bool
  mappings :: "mappings option"

text \<open>
  The configuration is the event's payload overlaid with the process environment
  and the \<open>ado\<close> and \<open>github\<close> settings (\<open>getConfig\<close>): \<open>action\<close>,
  \<open>issue\<close>, \<open>label\<close>, \<open>comment\<close>, \<open>repository\<close> and \<open>sender\<close>
  come from the payload, \<open>closed_at\<close> and the two \<open>GITHUB_\<close> entries from the
  environment. No handler reads \<open>sender\<close>.
\<close>

record config =
  action :: "string option"
  issue :: "issue option"
  event_label :: "label option"
  comment :: "comment option"
  repository :: repository
  sender :: user
  closed_at :: "string option"
  schedule :: bool
  manual_trigger :: bool
  GITHUB_REPOSITORY :: "string option"
  GITHUB_REPOSITORY_OWNER :: "string option"
  ado :: ado_config
  github_token :: "string option"

text \<open>
  The text converter (showdown) is outside the repository: its two directions are
  parameters. \<open>makeHtml\<close> may give back a value that is not a string.
\<close>

record converter =
  makeHtml :: "string option \<Rightarrow> string option"
  makeMarkdown :: "string \<Rightarrow> string"

text \<open>A work item as the mirror service returns it, with the fields the source reads.\<close>

record work_item =
  wi_id :: nat
  System_Title :: "string option"
  System_Description :: "string option"
  System_State :: "string option"
  System_ChangedDate :: js_date
  System_AssignedTo_uniqueName :: "string option"
  System_Tags :: "string option"

datatype opkind = Add | Replace | Remove

text \<open>
  The values that reach a patch or an issue update: a string, \<open>undefined\<close> or
  \<open>null\<close>, a link object, or a value inherited from \<open>Object.prototype\<close> (a
  function, or the prototype itself), which a property read gives for a key such
  as \<open>constructor\<close> that the object does not hold itself.
\<close>

datatype pvalue = Str string | Undefined | Relation string string | Inherited

fun truthy_value :: "pvalue \<Rightarrow> bool" where
  "truthy_value (Str s) = (s \<noteq> [])"
| "truthy_value Undefined = False"
| "truthy_value (Relation r u) = True"
| "truthy_value Inherited = True"

definition object_prototype_keys :: "string list" where
  \<open>object_prototype_keys =
     [''constructor'', ''__defineGetter__'', ''__defineSetter__'', ''hasOwnProperty'',
      ''__lookupGetter__'', ''__lookupSetter__'', ''isPrototypeOf'', ''propertyIsEnumerable'',
      ''toString'', ''valueOf'', ''__proto__'', ''toLocaleString'']\<close>

text \<open>\<open>obj[k]\<close> on a plain object: an own property first, then the prototype.\<close>

definition js_get :: "js_object \<Rightarrow> string \<Rightarrow> pvalue" where
  \<open>js_get obj k =
     (case map_of obj k of
        Some v \<Rightarrow> Str v
      | None \<Rightarrow> if k \<in> set object_prototype_keys then Inherited else Undefined)\<close>

record patch_op =
  op :: opkind
  path :: string
  val :: pvalue

type_synonym patch = "patch_op list"


section \<open>Field mapping\<close>

definition cleanUrl :: "string \<Rightarrow> string" where
  \<open>cleanUrl u = replace_first ''api.github.com/repos/'' ''github.com/'' u\<close>

definition createLabels :: "string \<Rightarrow> label list option \<Rightarrow> string" where
  \<open>createLabels seed labelsObj =
     (case labelsObj of
        None \<Rightarrow> seed
      | Some ls \<Rightarrow> foldl (\<lambda>acc l. acc @ ''GitHub Label: '' @ interp (name l) @ '';'') seed ls)\<close>

definition getAssignee :: "config \<Rightarrow> bool \<Rightarrow> pvalue" where
  \<open>getAssignee cfg useDefault =
     (let assignee =
        (case issue cfg of
           None \<Rightarrow> Undefined
         | Some i \<Rightarrow>
             (case assignee i of
                None \<Rightarrow> Undefined
              | Some a \<Rightarrow>
                  (case mappings (ado cfg) of
                     None \<Rightarrow> Undefined
                   | Some m \<Rightarrow>
                       (case handles m of
                          None \<Rightarrow> Undefined
                        | Some h \<Rightarrow>
                            (if truthy_value (js_get h (login a)) then js_get h (login a)
                             else Undefined)))))
      in if truthy_value assignee then assignee
         else if useDefault \<and> truthy (assignedTo (ado cfg)) then Str (the (assignedTo (ado cfg)))
         else assignee)\<close>

text \<open>
  \<open>objectFlip\<close>: \<open>ret[obj[key]] = key\<close> for each key in turn. Assigning a
  string to \<open>__proto__\<close> leaves the object as it is.
\<close>

definition objectFlip :: "js_object \<Rightarrow> js_object" where
  \<open>objectFlip obj =
     foldl (\<lambda>ret key.
              (case map_of obj key of
                 None \<Rightarrow> ret
               | Some v \<Rightarrow> if v = ''__proto__'' then ret else AList.update v key ret))
       [] (map fst obj)\<close>

text \<open>
  The reverse state lookup of \<open>updateIssue\<close>:
  \<open>Object.keys(states).find((k) => states[k] === value)\<close>.
\<close>

definition deriveStateKey :: "js_object \<Rightarrow> string option \<Rightarrow> string option" where
  \<open>deriveStateKey sts v = find (\<lambda>k. map_of sts k = v) (map fst sts)\<close>


section \<open>Patch documents\<close>

definition anchor :: "string \<Rightarrow> string \<Rightarrow> string \<Rightarrow> string" where
  \<open>anchor href target txt = ''<a href="'' @ href @ ''" target="'' @ target @ ''">'' @ txt @ ''</a>''\<close>

text \<open>
  The opening common to the history entries of every handler but the create one:
  issue number, link to the issue, link to the repository.
\<close>

definition issue_in_repo :: "config \<Rightarrow> issue \<Rightarrow> string" where
  \<open>issue_in_repo cfg i =
     ''GitHub issue #'' @ string_of_nat (number i) @ '': '' @
     anchor (cleanUrl (url i)) ''_new'' (title i) @ '' in '' @
     anchor (cleanUrl (repository_url i)) ''_blank'' (full_name (repository cfg))\<close>

definition by_user :: "user \<Rightarrow> string" where
  \<open>by_user u = '' by '' @ anchor (html_url u) ''_blank'' (login u)\<close>

definition html_or_empty :: "string option \<Rightarrow> string" where
  \<open>html_or_empty html = (if truthy html then the html else [])\<close>

definition history_op :: "string \<Rightarrow> patch_op" where
  \<open>history_op entry = \<lparr>op = Add, path = ''/fields/System.History'', val = Str entry\<rparr>\<close>

definition createPatchDoc :: "converter \<Rightarrow> config \<Rightarrow> issue \<Rightarrow> patch" where
  \<open>createPatchDoc conv cfg i =
     (let html = makeHtml conv (body i) in
      [\<lparr>op = Add, path = ''/fields/System.Title'', val = Str (title i)\<rparr>,
       \<lparr>op = Add, path = ''/fields/System.Description'', val = Str (html_or_empty html)\<rparr>,
       \<lparr>op = Add, path = ''/fields/Microsoft.VSTS.TCM.ReproSteps'', val = Str (html_or_empty html)\<rparr>,
       \<lparr>op = Add, path = ''/relations/-'',
        val = Relation ''System.LinkTypes.Hierarchy-Reverse''
                ''https://dev.azure.com/msazure/one/_apis/wit/workItems/24493735''\<rparr>,
       \<lparr>op = Add, path = ''/fields/System.Tags'',
        val = Str (createLabels
                (''GitHub Issue #'' @ string_of_nat (number i) @ '';GitHub Repo: '' @
                 full_name (repository cfg) @ '';'')
                (labels i))\<rparr>,
       \<lparr>op = Add, path = ''/relations/-'', val = Relation ''Hyperlink'' (cleanUrl (url i))\<rparr>,
       history_op (''GitHub issue #'' @ string_of_nat (number i) @ '': '' @
                   anchor (cleanUrl (url i)) ''_new'' (title i) @ '' created in '' @
                   anchor (cleanUrl (repository_url i)) ''_blank'' (full_name (repository cfg)) @
                   by_user (user i))]
      @ (if truthy_value (getAssignee cfg True)
         then [\<lparr>op = Add, path = ''/fields/System.AssignedTo'', val = getAssignee cfg True\<rparr>]
         else [])
      @ (if truthy (areaPath (ado cfg))
         then [\<lparr>op = Add, path = ''/fields/System.AreaPath'', val = Str (the (areaPath (ado cfg)))\<rparr>]
         else [])
      @ (if truthy (iterationPath (ado cfg))
         then [\<lparr>op = Add, path = ''/fields/System.IterationPath'',
                val = Str (the (iterationPath (ado cfg)))\<rparr>]
         else [])
      @ (if bypassRules (ado cfg)
         then [\<lparr>op = Add, path = ''/fields/System.CreatedBy'', val = Str (login (user i))\<rparr>]
         else []))\<close>

definition state_value :: "config \<Rightarrow> string \<Rightarrow> pvalue" where
  \<open>state_value cfg k = (case map_of (states (ado cfg)) k of None \<Rightarrow> Undefined | Some s \<Rightarrow> Str s)\<close>

definition closeStateOps :: "config \<Rightarrow> patch" where
  \<open>closeStateOps cfg =
     [\<lparr>op = Add, path = ''/fields/System.State'', val = state_value cfg ''closed''\<rparr>]\<close>

definition closePatchDoc :: "config \<Rightarrow> issue \<Rightarrow> patch" where
  \<open>closePatchDoc cfg i =
     closeStateOps cfg
     @ (if closed_at cfg \<noteq> Some []
        then [history_op (issue_in_repo cfg i @ '' closed'' @ by_user (user i))]
        else [])\<close>

definition deletePatchDoc :: "config \<Rightarrow> issue \<Rightarrow> patch" where
  \<open>deletePatchDoc cfg i =
     [\<lparr>op = Add, path = ''/fields/System.State'', val = state_value cfg ''deleted''\<rparr>,
      \<lparr>op = Add, path = ''/fields/IntuneAgile.ResolutionReason'', val = Str ''Won't Fix''\<rparr>,
      history_op (issue_in_repo cfg i @ '' removed'' @ by_user (user i))]\<close>

definition reopenPatchDoc :: "config \<Rightarrow> issue \<Rightarrow> patch" where
  \<open>reopenPatchDoc cfg i =
     [\<lparr>op = Add, path = ''/fields/System.State'', val = state_value cfg ''reopened''\<rparr>,
      history_op (issue_in_repo cfg i @ '' reopened'' @ by_user (user i))]\<close>

definition editPatchDoc :: "converter \<Rightarrow> config \<Rightarrow> issue \<Rightarrow> patch" where
  \<open>editPatchDoc conv cfg i =
     (let html = makeHtml conv (body i) in
      [\<lparr>op = Replace, path = ''/fields/System.Title'', val = Str (title i)\<rparr>,
       \<lparr>op = Replace, path = ''/fields/System.Description'', val = Str (html_or_empty html)\<rparr>,
       \<lparr>op = Replace, path = ''/fields/Microsoft.VSTS.TCM.ReproSteps'',
        val = Str (html_or_empty html)\<rparr>,
       history_op (issue_in_repo cfg i @ '' edited'' @ by_user (user i))])\<close>

definition labelPatchDoc :: "config \<Rightarrow> issue \<Rightarrow> label \<Rightarrow> patch" where
  \<open>labelPatchDoc cfg i l =
     [\<lparr>op = Add, path = ''/fields/System.Tags'', val = Str (createLabels [] (Some [l]))\<rparr>,
      history_op (issue_in_repo cfg i @ '' addition of label '' @ [CHR 0x27] @ interp (name l) @
                  [CHR 0x27] @ by_user (user i))]\<close>

text \<open>
  The tag subtraction of \<open>unlabelWorkItem\<close>: the first occurrence of the label's
  tag text is cut out of the located work item's tag field.
\<close>

definition unlabelTags :: "string \<Rightarrow> label \<Rightarrow> string" where
  \<open>unlabelTags tags l = replace_first (createLabels [] (Some [l])) [] tags\<close>

definition unlabelPatchDoc :: "config \<Rightarrow> issue \<Rightarrow> label \<Rightarrow> string \<Rightarrow> patch" where
  \<open>unlabelPatchDoc cfg i l tags =
     [\<lparr>op = Replace, path = ''/fields/System.Tags'', val = Str (unlabelTags tags l)\<rparr>,
      history_op (issue_in_repo cfg i @ '' removal of label '' @ [CHR 0x27] @ interp (name l) @
                  [CHR 0x27] @ by_user (user i))]\<close>

definition assignPatchDoc :: "config \<Rightarrow> issue \<Rightarrow> patch" where
  \<open>assignPatchDoc cfg i =
     (if truthy_value (getAssignee cfg False)
      then [\<lparr>op = Add, path = ''/fields/System.AssignedTo'', val = getAssignee cfg False\<rparr>]
      else [\<lparr>op = Remove, path = ''/fields/System.AssignedTo'', val = Undefined\<rparr>])
     @ [history_op (issue_in_repo cfg i @ '' assigned to '' @ [CHR 0x27] @
                    interp (map_option login (assignee i)) @ [CHR 0x27] @ by_user (user i))]\<close>

definition unassignPatchDoc :: "config \<Rightarrow> issue \<Rightarrow> patch" where
  \<open>unassignPatchDoc cfg i =
     [\<lparr>op = Remove, path = ''/fields/System.AssignedTo'', val = Undefined\<rparr>,
      history_op (issue_in_repo cfg i @ '' removal of assignment to '' @ [CHR 0x27] @
                  interp (map_option login (assignee i)) @ [CHR 0x27] @ by_user (user i))]\<close>

definition commentPatchDoc :: "converter \<Rightarrow> config \<Rightarrow> issue \<Rightarrow> comment \<Rightarrow> patch" where
  \<open>commentPatchDoc conv cfg i c =
     (let html = makeHtml conv (comment_body c) in
      [history_op (issue_in_repo cfg i @ '' comment added'' @ by_user (comment_user c) @
                   ''<br />'' @ ''Comment #'' @
                   anchor (comment_html_url c) ''_blank'' (string_of_nat (comment_id c)) @
                   '':<br /><br />'' @ (case html of None \<Rightarrow> ''null'' | Some h \<Rightarrow> h))])\<close>


section \<open>The remote services and the run's effects\<close>

text \<open>
  The mirror work-item service and the origin issue service are outside the
  repository. They are a parameter: a record of operations on a service state of
  any type. Each operation gives back a promise, rejected or resolved, and the
  next service state. \<open>None\<close> inside a resolved promise is \<open>null\<close>.
  \<open>getOctokit\<close> tells whether the client of the origin service can be built
  from the configured token; it throws when it cannot.
\<close>

datatype 'a promise = Rejected | Resolved 'a

datatype get_opts = Expand nat | Fields "string list"

record issue_update =
  new_title :: "string option"
  new_body :: string
  new_state :: "string option"
  new_assignees :: "pvalue list"

record 's services =
  getOctokit :: "string option \<Rightarrow> bool"
  getWorkItemTrackingApi :: "'s \<Rightarrow> unit promise \<times> 's"
  queryByWiql :: "string \<Rightarrow> string \<Rightarrow> 's \<Rightarrow> nat list option promise \<times> 's"
  client_getWorkItem :: "nat \<Rightarrow> get_opts \<Rightarrow> 's \<Rightarrow> work_item option promise \<times> 's"
  client_createWorkItem ::
    "patch \<Rightarrow> string \<Rightarrow> string \<Rightarrow> bool \<Rightarrow> 's \<Rightarrow> work_item option promise \<times> 's"
  client_updateWorkItem ::
    "patch \<Rightarrow> nat option \<Rightarrow> string \<Rightarrow> bool \<Rightarrow> 's \<Rightarrow> work_item option promise \<times> 's"
  issues_get :: "string \<Rightarrow> string \<Rightarrow> string \<Rightarrow> 's \<Rightarrow> issue promise \<times> 's"
  issues_update ::
    "string \<Rightarrow> string \<Rightarrow> string \<Rightarrow> issue_update \<Rightarrow> 's \<Rightarrow> unit promise \<times> 's"

text \<open>
  The write calls a run issues are logged in order, whatever their outcome;
  \<open>failed\<close> is set by \<open>core.setFailed\<close>.
\<close>

datatype call =
    CreateWorkItemCall patch string string bool
  | UpdateWorkItemCall patch "nat option" string bool
  | UpdateIssueCall string string string issue_update

record 's world =
  svc :: 's
  failed :: bool
  calls :: "call list"

text \<open>
  What a handler's promise settles to: rejected (\<open>Thrown\<close>), \<open>null\<close> or
  \<open>undefined\<close>, a number (the sentinels 0 and -1) or a work item.
\<close>

datatype ret = Thrown | Null | Num int | Item work_item

fun truthy_ret :: "ret \<Rightarrow> bool" where
  "truthy_ret Thrown = False"
| "truthy_ret Null = False"
| "truthy_ret (Num n) = (n \<noteq> 0)"
| "truthy_ret (Item wi) = True"

text \<open>\<open>workItem.id\<close>: a number has no such property.\<close>

fun ret_id :: "ret \<Rightarrow> nat option" where
  "ret_id (Item wi) = Some (wi_id wi)"
| "ret_id r = None"

text \<open>\<open>core.setFailed(...); return -1;\<close>\<close>

definition fail :: "'s world \<Rightarrow> 's \<Rightarrow> ret \<times> 's world" where
  "fail w s = (Num (- 1), w\<lparr>svc := s, failed := True\<rparr>)"

definition noado :: "runtime \<Rightarrow> label list option \<Rightarrow> bool" where
  \<open>noado rt ls =
     (case ls of
        None \<Rightarrow> False
      | Some xs \<Rightarrow> list_ex (\<lambda>x. map_option (toLowerCase rt) (name x) = Some ''noado'') xs)\<close>


section \<open>The work item locator\<close>

definition wiql_select :: string where
  \<open>wiql_select =
     ''SELECT [System.Id], [System.Description], [System.Title], [System.AssignedTo], [System.State], [System.Tags] FROM workitems WHERE [System.TeamProject] = @project ''\<close>

definition wiql_query :: "config \<Rightarrow> issue \<Rightarrow> string" where
  \<open>wiql_query cfg i =
     wiql_select @
     ''AND [System.WorkItemType] = '' @ [CHR 0x27] @ wit (ado cfg) @ [CHR 0x27] @
     ''AND [System.Tags] CONTAINS '' @ [CHR 0x27] @ ''GitHub Issue #'' @
     string_of_nat (number i) @ [CHR 0x27] @ '' '' @
     ''AND [System.Tags] CONTAINS '' @ [CHR 0x27] @ ''GitHub Repo: '' @
     full_name (repository cfg) @ [CHR 0x27]\<close>

definition getWorkItem :: "'s services \<Rightarrow> config \<Rightarrow> bool \<Rightarrow> 's world \<Rightarrow> ret \<times> 's world" where
  \<open>getWorkItem api cfg skipQuery w =
     (if skipQuery then (Null, w)
      else
        (case getWorkItemTrackingApi api (svc w) of
           (Rejected, s1) \<Rightarrow> fail w s1
         | (Resolved client, s1) \<Rightarrow>
             (case issue cfg of
                None \<Rightarrow> (Thrown, w\<lparr>svc := s1\<rparr>)
              | Some i \<Rightarrow>
                  (case queryByWiql api (wiql_query cfg i) (project (ado cfg)) s1 of
                     (Rejected, s2) \<Rightarrow> fail w s2
                   | (Resolved None, s2) \<Rightarrow> fail w s2
                   | (Resolved (Some []), s2) \<Rightarrow> (Null, w\<lparr>svc := s2\<rparr>)
                   | (Resolved (Some (first # others)), s2) \<Rightarrow>
                       (case client_getWorkItem api first (Expand 4) s2 of
                          (Rejected, s3) \<Rightarrow> fail w s3
                        | (Resolved None, s3) \<Rightarrow> (Null, w\<lparr>svc := s3\<rparr>)
                        | (Resolved (Some wi), s3) \<Rightarrow> (Item wi, w\<lparr>svc := s3\<rparr>))))))\<close>


section \<open>The sync executor and the event handlers\<close>

text \<open>
  \<open>createWorkItem\<close> asks the locator first and stops with 0 on any truthy answer.
  The second connection is made outside the \<open>try\<close> block, so its rejection
  rejects the handler; a rejected or \<open>null\<close> create call gives -1.
\<close>

definition createWorkItem ::
  "converter \<Rightarrow> 's services \<Rightarrow> config \<Rightarrow> bool \<Rightarrow> 's world \<Rightarrow> ret \<times> 's world" where
  \<open>createWorkItem conv api cfg skipQuery w =
     (case getWorkItem api cfg skipQuery w of
        (workItem, w1) \<Rightarrow>
          if workItem = Thrown then (Thrown, w1)
          else if truthy_ret workItem then (Num 0, w1)
          else
            (case issue cfg of
               None \<Rightarrow> (Thrown, w1)
             | Some i \<Rightarrow>
                 (let patchDoc = createPatchDoc conv cfg i in
                  case getWorkItemTrackingApi api (svc w1) of
                    (Rejected, s2) \<Rightarrow> (Thrown, w1\<lparr>svc := s2\<rparr>)
                  | (Resolved client, s2) \<Rightarrow>
                      (let w2 = w1\<lparr>calls := calls w1 @
                                   [CreateWorkItemCall patchDoc (project (ado cfg)) (wit (ado cfg))
                                      (bypassRules (ado cfg))]\<rparr>
                       in case client_createWorkItem api patchDoc (project (ado cfg))
                                 (wit (ado cfg)) (bypassRules (ado cfg)) s2 of
                            (Rejected, s3) \<Rightarrow> fail w2 s3
                          | (Resolved None, s3) \<Rightarrow> fail w2 s3
                          | (Resolved (Some result), s3) \<Rightarrow> (Item result, w2\<lparr>svc := s3\<rparr>)))))\<close>

text \<open>
  \<open>updateWorkItem\<close> stops with 0 only on a falsy answer of the locator without
  \<open>autoCreate\<close>. Otherwise it submits the patch for \<open>workItem.id\<close>, where
  \<open>workItem\<close> is the locator's answer or, after an automatic creation, the
  answer of \<open>createWorkItem\<close>.
\<close>

definition updateWorkItem ::
  "converter \<Rightarrow> 's services \<Rightarrow> config \<Rightarrow> patch \<Rightarrow> 's world \<Rightarrow> ret \<times> 's world" where
  \<open>updateWorkItem conv api cfg patchDoc w =
     (case getWorkItem api cfg False w of
        (found, w1) \<Rightarrow>
          if found = Thrown then (Thrown, w1)
          else if \<not> truthy_ret found \<and> \<not> autoCreate (ado cfg) then (Num 0, w1)
          else
            (case (if \<not> truthy_ret found then createWorkItem conv api cfg True w1
                   else (found, w1)) of
               (workItem, w2) \<Rightarrow>
                 if workItem = Thrown then (Thrown, w2)
                 else
                   (case getWorkItemTrackingApi api (svc w2) of
                      (Rejected, s3) \<Rightarrow> (Thrown, w2\<lparr>svc := s3\<rparr>)
                    | (Resolved client, s3) \<Rightarrow>
                        if workItem = Null then fail w2 s3
                        else
                          (let w3 = w2\<lparr>calls := calls w2 @
                                       [UpdateWorkItemCall patchDoc (ret_id workItem)
                                          (project (ado cfg)) (bypassRules (ado cfg))]\<rparr>
                           in case client_updateWorkItem api patchDoc (ret_id workItem)
                                     (project (ado cfg)) (bypassRules (ado cfg)) s3 of
                                (Rejected, s4) \<Rightarrow> fail w3 s4
                              | (Resolved None, s4) \<Rightarrow> fail w3 s4
                              | (Resolved (Some result), s4) \<Rightarrow>
                                  (Item result, w3\<lparr>svc := s4\<rparr>)))))\<close>

text \<open>
  Each handler builds its patch before any remote call; reading a property of an
  absent \<open>config.issue\<close>, \<open>config.label\<close> or \<open>config.comment\<close> throws.
\<close>

definition closeWorkItem :: "converter \<Rightarrow> 's services \<Rightarrow> config \<Rightarrow> 's world \<Rightarrow> ret \<times> 's world" where
  \<open>closeWorkItem conv api cfg w =
     (case issue cfg of
        Some i \<Rightarrow> updateWorkItem conv api cfg (closePatchDoc cfg i) w
      | None \<Rightarrow>
          if closed_at cfg \<noteq> Some [] then (Thrown, w)
          else updateWorkItem conv api cfg (closeStateOps cfg) w)\<close>

definition deleteWorkItem :: "converter \<Rightarrow> 's services \<Rightarrow> config \<Rightarrow> 's world \<Rightarrow> ret \<times> 's world" where
  \<open>deleteWorkItem conv api cfg w =
     (case issue cfg of
        None \<Rightarrow> (Thrown, w)
      | Some i \<Rightarrow> updateWorkItem conv api cfg (deletePatchDoc cfg i) w)\<close>

definition reopenWorkItem :: "converter \<Rightarrow> 's services \<Rightarrow> config \<Rightarrow> 's world \<Rightarrow> ret \<times> 's world" where
  \<open>reopenWorkItem conv api cfg w =
     (case issue cfg of
        None \<Rightarrow> (Thrown, w)
      | Some i \<Rightarrow> updateWorkItem conv api cfg (reopenPatchDoc cfg i) w)\<close>

definition editWorkItem :: "converter \<Rightarrow> 's services \<Rightarrow> config \<Rightarrow> 's world \<Rightarrow> ret \<times> 's world" where
  \<open>editWorkItem conv api cfg w =
     (case issue cfg of
        None \<Rightarrow> (Thrown, w)
      | Some i \<Rightarrow> updateWorkItem conv api cfg (editPatchDoc conv cfg i) w)\<close>

definition labelWorkItem :: "converter \<Rightarrow> 's services \<Rightarrow> config \<Rightarrow> 's world \<Rightarrow> ret \<times> 's world" where
  \<open>labelWorkItem conv api cfg w =
     (case (event_label cfg, issue cfg) of
        (Some l, Some i) \<Rightarrow> updateWorkItem conv api cfg (labelPatchDoc cfg i l) w
      | _ \<Rightarrow> (Thrown, w))\<close>

definition unlabelWorkItem :: "converter \<Rightarrow> 's services \<Rightarrow> config \<Rightarrow> 's world \<Rightarrow> ret \<times> 's world" where
  \<open>unlabelWorkItem conv api cfg w =
     (case getWorkItem api cfg False w of
        (workItem, w1) \<Rightarrow>
          if workItem = Thrown then (Thrown, w1)
          else if \<not> truthy_ret workItem then (Num 0, w1)
          else
            (case workItem of
               Item wi \<Rightarrow>
                 (case (System_Tags wi, event_label cfg, issue cfg) of
                    (Some tags, Some l, Some i) \<Rightarrow>
                      updateWorkItem conv api cfg (unlabelPatchDoc cfg i l tags) w1
                  | _ \<Rightarrow> (Thrown, w1))
             | _ \<Rightarrow> (Thrown, w1)))\<close>

definition assignWorkItem :: "converter \<Rightarrow> 's services \<Rightarrow> config \<Rightarrow> 's world \<Rightarrow> ret \<times> 's world" where
  \<open>assignWorkItem conv api cfg w =
     (case issue cfg of
        None \<Rightarrow> (Thrown, w)
      | Some i \<Rightarrow> updateWorkItem conv api cfg (assignPatchDoc cfg i) w)\<close>

definition unassignWorkItem :: "converter \<Rightarrow> 's services \<Rightarrow> config \<Rightarrow> 's world \<Rightarrow> ret \<times> 's world" where
  \<open>unassignWorkItem conv api cfg w =
     (case issue cfg of
        None \<Rightarrow> (Thrown, w)
      | Some i \<Rightarrow> updateWorkItem conv api cfg (unassignPatchDoc cfg i) w)\<close>

definition addComment :: "converter \<Rightarrow> 's services \<Rightarrow> config \<Rightarrow> 's world \<Rightarrow> ret \<times> 's world" where
  \<open>addComment conv api cfg w =
     (case (comment cfg, issue cfg) of
        (Some c, Some i) \<Rightarrow> updateWorkItem conv api cfg (commentPatchDoc conv cfg i c) w
      | _ \<Rightarrow> (Thrown, w))\<close>


section \<open>Reverse reconciliation\<close>

datatype settled = Rejects | ReturnsNull | ReturnsResult

text \<open>
  The issue number is read off the tag field:
  \<open>split(";")?.find((x) => x.includes("GitHub Issue #"))?.split("#")[1]\<close>.
\<close>

definition issue_number_of_tags :: "string \<Rightarrow> string option" where
  \<open>issue_number_of_tags tags =
     (case find (sublist ''GitHub Issue #'') (split_on CHR '';'' tags) of
        None \<Rightarrow> None
      | Some x \<Rightarrow>
          (case split_on CHR ''#'' x of
             a # b # rest \<Rightarrow> Some b
           | _ \<Rightarrow> None))\<close>

text \<open>The freshness test of \<open>updateIssue\<close>.\<close>

definition fresher :: "runtime \<Rightarrow> work_item \<Rightarrow> issue \<Rightarrow> bool" where
  \<open>fresher rt wiObj iss =
     (date_gt (System_ChangedDate wiObj) (updated_at iss) \<and> \<not> noado rt (labels iss))\<close>

text \<open>The candidate values computed from the work item.\<close>

definition candidate_body :: "runtime \<Rightarrow> converter \<Rightarrow> work_item \<Rightarrow> string" where
  \<open>candidate_body rt conv wiObj =
     trim rt (replace_all ''<br>'' [] 0
       (makeMarkdown conv (case System_Description wiObj of None \<Rightarrow> [] | Some d \<Rightarrow> d)))\<close>

definition ghAssignedTo :: "runtime \<Rightarrow> config \<Rightarrow> work_item \<Rightarrow> pvalue" where
  \<open>ghAssignedTo rt cfg wiObj =
     (let assignedTo = System_AssignedTo_uniqueName wiObj in
      if truthy assignedTo
      then js_get
             (objectFlip (case mappings (ado cfg) of
                            None \<Rightarrow> []
                          | Some m \<Rightarrow> (case handles m of None \<Rightarrow> [] | Some h \<Rightarrow> h)))
             (toLowerCase rt (the assignedTo))
      else Undefined)\<close>

text \<open>
  \<open>ghAssignedTo?.toLowerCase()\<close>, for a handle that is a string, \<open>null\<close> or
  \<open>undefined\<close>. On an inherited value the call throws; \<open>updateIssue\<close> treats
  that case before it compares.
\<close>

definition lowered :: "runtime \<Rightarrow> pvalue \<Rightarrow> string option" where
  \<open>lowered rt v = (case v of Str s \<Rightarrow> Some (toLowerCase rt s) | _ \<Rightarrow> None)\<close>

text \<open>
  The equality guard of \<open>updateIssue\<close>: true when its condition evaluates to
  true. The disjuncts are evaluated in order, the assignees last.
\<close>

definition differs :: "runtime \<Rightarrow> converter \<Rightarrow> config \<Rightarrow> work_item \<Rightarrow> issue \<Rightarrow> bool" where
  \<open>differs rt conv cfg wiObj iss =
     (System_Title wiObj \<noteq> Some (title iss) \<or>
      Some (candidate_body rt conv wiObj) \<noteq> body iss \<or>
      deriveStateKey (states (ado cfg)) (System_State wiObj) \<noteq> Some (state iss) \<or>
      (ghAssignedTo rt cfg wiObj \<noteq> Inherited \<and>
       lowered rt (ghAssignedTo rt cfg wiObj) \<noteq>
         map_option (\<lambda>a. toLowerCase rt (login a)) (assignee iss)))\<close>

definition issue_update_of :: "runtime \<Rightarrow> converter \<Rightarrow> config \<Rightarrow> work_item \<Rightarrow> issue_update" where
  \<open>issue_update_of rt conv cfg wiObj =
     \<lparr>new_title = System_Title wiObj,
      new_body = candidate_body rt conv wiObj,
      new_state = deriveStateKey (states (ado cfg)) (System_State wiObj),
      new_assignees =
        (if truthy_value (ghAssignedTo rt cfg wiObj) then [ghAssignedTo rt cfg wiObj] else [])\<rparr>\<close>

definition reconciled_fields :: get_opts where
  \<open>reconciled_fields =
     Fields [''System.Title'', ''System.Description'', ''System.State'',
             ''System.ChangedDate'', ''System.AssignedTo'', ''System.Tags'']\<close>

text \<open>\<open>config.GITHUB_REPOSITORY.replace(owner + "/", "")\<close>, the repository being set.\<close>

definition repo_name :: "config \<Rightarrow> string \<Rightarrow> string" where
  \<open>repo_name cfg repository_name =
     replace_first (interp (GITHUB_REPOSITORY_OWNER cfg) @ ''/'') [] repository_name\<close>

text \<open>
  \<open>updateIssue\<close> builds the origin client and the repository name before its
  first remote call; either step may throw. The reconciliation then runs on the
  fetched work item.
\<close>

definition updateIssue ::
  "runtime \<Rightarrow> converter \<Rightarrow> 's services \<Rightarrow> config \<Rightarrow> nat \<Rightarrow> 's world \<Rightarrow> settled \<times> 's world" where
  \<open>updateIssue rt conv api cfg workItem_id w =
     (if \<not> getOctokit api (github_token cfg) then (Rejects, w)
      else
        (case GITHUB_REPOSITORY cfg of
           None \<Rightarrow> (Rejects, w)
         | Some repository_name \<Rightarrow>
             (let owner = interp (GITHUB_REPOSITORY_OWNER cfg);
                  repo = repo_name cfg repository_name
              in case client_getWorkItem api workItem_id reconciled_fields (svc w) of
                   (Rejected, s1) \<Rightarrow> (Rejects, w\<lparr>svc := s1\<rparr>)
                 | (Resolved None, s1) \<Rightarrow> (Rejects, w\<lparr>svc := s1\<rparr>)
                 | (Resolved (Some wiObj), s1) \<Rightarrow>
                     (case System_Tags wiObj of
                        None \<Rightarrow> (Rejects, w\<lparr>svc := s1\<rparr>)
                      | Some tags \<Rightarrow>
                          (let issue_number = issue_number_of_tags tags in
                           if \<not> truthy issue_number then (ReturnsNull, w\<lparr>svc := s1\<rparr>)
                           else
                             (case issues_get api owner repo (the issue_number) s1 of
                                (Rejected, s2) \<Rightarrow> (Rejects, w\<lparr>svc := s2\<rparr>)
                              | (Resolved iss, s2) \<Rightarrow>
                                  if fresher rt wiObj iss
                                  then
                                    (if differs rt conv cfg wiObj iss
                                     then
                                       (let w3 = w\<lparr>calls := calls w @
                                                    [UpdateIssueCall owner repo (the issue_number)
                                                       (issue_update_of rt conv cfg wiObj)]\<rparr>
                                        in case issues_update api owner repo (the issue_number)
                                                  (issue_update_of rt conv cfg wiObj) s2 of
                                             (Rejected, s3) \<Rightarrow> (Rejects, w3\<lparr>svc := s3\<rparr>)
                                           | (Resolved result, s3) \<Rightarrow>
                                               (ReturnsResult, w3\<lparr>svc := s3\<rparr>))
                                     else if ghAssignedTo rt cfg wiObj = Inherited
                                     then (Rejects, w\<lparr>svc := s2\<rparr>)
                                     else (ReturnsNull, w\<lparr>svc := s2\<rparr>))
                                  else (ReturnsNull, w\<lparr>svc := s2\<rparr>)))))))\<close>

definition wiql_recent :: "config \<Rightarrow> string" where
  \<open>wiql_recent cfg =
     wiql_select @
     ''AND [System.WorkItemType] = '' @ [CHR 0x27] @ wit (ado cfg) @ [CHR 0x27] @
     ''AND [System.Tags] CONTAINS '' @ [CHR 0x27] @ ''GitHub Repo: '' @
     interp (GITHUB_REPOSITORY cfg) @ [CHR 0x27] @ '' '' @
     ''AND [System.ChangedDate] > @Today - 1''\<close>

text \<open>
  The batch starts one reconciliation per work item and waits for none; a
  rejected one stops only itself. The items are taken here in the order of the
  query result.
\<close>

definition updateIssues ::
  "runtime \<Rightarrow> converter \<Rightarrow> 's services \<Rightarrow> config \<Rightarrow> 's world \<Rightarrow> ret \<times> 's world" where
  \<open>updateIssues rt conv api cfg w =
     (case getWorkItemTrackingApi api (svc w) of
        (Rejected, s1) \<Rightarrow> fail w s1
      | (Resolved client, s1) \<Rightarrow>
          (case queryByWiql api (wiql_recent cfg) (project (ado cfg)) s1 of
             (Rejected, s2) \<Rightarrow> fail w s2
           | (Resolved None, s2) \<Rightarrow> fail w s2
           | (Resolved (Some workItems), s2) \<Rightarrow>
               (Null, foldl (\<lambda>w' workItem_id. snd (updateIssue rt conv api cfg workItem_id w'))
                        (w\<lparr>svc := s2\<rparr>) workItems)))\<close>


section \<open>Dispatch\<close>

definition performWork ::
  "runtime \<Rightarrow> converter \<Rightarrow> 's services \<Rightarrow> config \<Rightarrow> 's world \<Rightarrow> ret \<times> 's world" where
  \<open>performWork rt conv api cfg w =
     (if noado rt (case issue cfg of None \<Rightarrow> None | Some i \<Rightarrow> labels i)
      then deleteWorkItem conv api cfg w
      else
        (case (if action cfg = Some ''opened'' then createWorkItem conv api cfg False w
               else if action cfg = Some ''closed'' then closeWorkItem conv api cfg w
               else if action cfg = Some ''deleted'' then deleteWorkItem conv api cfg w
               else if action cfg = Some ''reopened'' then reopenWorkItem conv api cfg w
               else if action cfg = Some ''edited'' then editWorkItem conv api cfg w
               else if action cfg = Some ''labeled'' then labelWorkItem conv api cfg w
               else if action cfg = Some ''unlabeled'' then unlabelWorkItem conv api cfg w
               else if action cfg = Some ''assigned'' then assignWorkItem conv api cfg w
               else if action cfg = Some ''unassigned'' then unassignWorkItem conv api cfg w
               else if action cfg = Some ''created'' then addComment conv api cfg w
               else (Null, w)) of
           (workItem, w1) \<Rightarrow>
             if workItem = Thrown then (Thrown, w1)
             else if schedule cfg \<or> manual_trigger cfg
             then (workItem, snd (updateIssues rt conv api cfg w1))
             else (workItem, w1)))\<close>


section \<open>Properties of patch documents and of the call log\<close>

text \<open>
  A patch has a history entry for an action when one of its operations adds, to
  the history field, a text that holds the action's words. It mentions a name
  when some operation on the history field carries a text that holds the name.
\<close>

definition history_entry :: "string \<Rightarrow> patch \<Rightarrow> bool" where
  \<open>history_entry act p =
     list_ex (\<lambda>x. op x = Add \<and> path x = ''/fields/System.History'' \<and>
                  (case val x of Str s \<Rightarrow> sublist act s | _ \<Rightarrow> False)) p\<close>

definition history_mentions :: "string \<Rightarrow> patch \<Rightarrow> bool" where
  \<open>history_mentions nm p =
     list_ex (\<lambda>x. path x = ''/fields/System.History'' \<and>
                  (case val x of Str s \<Rightarrow> sublist nm s | _ \<Rightarrow> False)) p\<close>

definition history_append_only :: "patch \<Rightarrow> bool" where
  \<open>history_append_only p =
     list_all (\<lambda>x. path x = ''/fields/System.History'' \<longrightarrow> op x = Add) p\<close>

definition touches_history :: "patch \<Rightarrow> bool" where
  \<open>touches_history p = list_ex (\<lambda>x. path x = ''/fields/System.History'') p\<close>

definition count_creates :: "call list \<Rightarrow> nat" where
  "count_creates cs =
     length (filter (\<lambda>c. case c of CreateWorkItemCall p pr t b \<Rightarrow> True | _ \<Rightarrow> False) cs)"


section \<open>A small instance of the services and example data\<close>

text \<open>
  An in-memory stand-in for the two services, for running the handlers on
  concrete inputs: one repository with one issue; the mirror keeps the work items
  it was asked to create; a query lists them all, or is rejected when
  \<open>query_fails\<close> is set. The origin client is built from any non-empty token.
\<close>

record stub =
  store :: "work_item list"
  origin :: issue
  query_fails :: bool

definition patch_str :: "patch \<Rightarrow> string \<Rightarrow> string option" where
  "patch_str p pth =
     (case find (\<lambda>x. path x = pth) p of
        None \<Rightarrow> None
      | Some x \<Rightarrow> (case val x of Str v \<Rightarrow> Some v | _ \<Rightarrow> None))"

definition stub_services :: "stub services" where
  \<open>stub_services =
     \<lparr>getOctokit = truthy,
      getWorkItemTrackingApi = (\<lambda>s. (Resolved (), s)),
      queryByWiql = (\<lambda>q pr s.
        (if query_fails s then Rejected else Resolved (Some (map wi_id (store s))), s)),
      client_getWorkItem = (\<lambda>n opts s. (Resolved (find (\<lambda>x. wi_id x = n) (store s)), s)),
      client_createWorkItem = (\<lambda>p pr t b s.
        (let wi = \<lparr>wi_id = Suc (length (store s)),
                   System_Title = patch_str p ''/fields/System.Title'',
                   System_Description = patch_str p ''/fields/System.Description'',
                   System_State = Some ''New'',
                   System_ChangedDate = Some 0,
                   System_AssignedTo_uniqueName = patch_str p ''/fields/System.AssignedTo'',
                   System_Tags = patch_str p ''/fields/System.Tags''\<rparr>
         in (Resolved (Some wi), s\<lparr>store := store s @ [wi]\<rparr>))),
      client_updateWorkItem = (\<lambda>p n pr b s.
        (case n of
           None \<Rightarrow> (Rejected, s)
         | Some k \<Rightarrow>
             (case find (\<lambda>x. wi_id x = k) (store s) of
                None \<Rightarrow> (Rejected, s)
              | Some wi \<Rightarrow> (Resolved (Some wi), s)))),
      issues_get = (\<lambda>ow r n s. (Resolved (origin s), s)),
      issues_update = (\<lambda>ow r n u s. (Resolved (), s))\<rparr>\<close>

text \<open>
  The examples hold ASCII strings only. On such strings \<open>toLowerCase\<close> lowers
  the letters A to Z and \<open>trim\<close> strips space, tab, line feed, vertical tab,
  form feed and carriage return from both ends; \<open>ascii_runtime\<close> does that.
\<close>

definition ascii_lower :: "char \<Rightarrow> char" where
  "ascii_lower c =
     (case map_of (zip ''ABCDEFGHIJKLMNOPQRSTUVWXYZ'' ''abcdefghijklmnopqrstuvwxyz'') c of
        Some l \<Rightarrow> l
      | None \<Rightarrow> c)"

definition ascii_space :: "char \<Rightarrow> bool" where
  "ascii_space c = (c \<in> set [CHR '' '', CHR 0x09, CHR 0x0A, CHR 0x0B, CHR 0x0C, CHR 0x0D])"

definition ascii_runtime :: runtime where
  "ascii_runtime =
     \<lparr>toLowerCase = map ascii_lower,
      trim = (\<lambda>s. rev (dropWhile ascii_space (rev (dropWhile ascii_space s))))\<rparr>"

definition octocat :: user where
  \<open>octocat = \<lparr>login = ''octocat'', html_url = ''https://github.com/octocat''\<rparr>\<close>

definition hubot :: user where
  \<open>hubot = \<lparr>login = ''hubot'', html_url = ''https://github.com/hubot''\<rparr>\<close>

definition issue42 :: issue where
  \<open>issue42 =
     \<lparr>number = 42, title = ''Crash on start'', body = Some ''It crashes.'', state = ''open'',
      url = ''https://api.github.com/repos/acme/widgets/issues/42'',
      repository_url = ''https://api.github.com/repos/acme/widgets'',
      user = octocat, labels = Some [\<lparr>name = Some ''bug''\<rparr>], assignee = None,
      updated_at = Some 100\<rparr>\<close>

definition acme_ado :: ado_config where
  \<open>acme_ado =
     \<lparr>project = ''Widgets'', wit = ''Bug'',
      states = [(''closed'', ''Done''), (''deleted'', ''Removed''), (''reopened'', ''To Do'')],
      areaPath = None, iterationPath = None, assignedTo = None,
      bypassRules = False, autoCreate = False, mappings = None\<rparr>\<close>

definition acme_config :: config where
  \<open>acme_config =
     \<lparr>action = Some ''opened'', issue = Some issue42, event_label = Some \<lparr>name = Some ''bug''\<rparr>,
      comment = None, repository = \<lparr>full_name = ''acme/widgets''\<rparr>, sender = octocat,
      closed_at = None, schedule = False, manual_trigger = False,
      GITHUB_REPOSITORY = Some ''acme/widgets'', GITHUB_REPOSITORY_OWNER = Some ''acme'',
      ado = acme_ado, github_token = Some ''token''\<rparr>\<close>

definition plain :: converter where
  \<open>plain = \<lparr>makeHtml = (\<lambda>b. b), makeMarkdown = (\<lambda>h. h)\<rparr>\<close>

definition empty_world :: "stub world" where
  \<open>empty_world =
     \<lparr>svc = \<lparr>store = [], origin = issue42, query_fails = False\<rparr>, failed = False, calls = []\<rparr>\<close>

definition mirror42 :: work_item where
  \<open>mirror42 =
     \<lparr>wi_id = 1, System_Title = Some ''Crash on start'', System_Description = Some ''It crashes.'',
      System_State = Some ''New'', System_ChangedDate = Some 0,
      System_AssignedTo_uniqueName = None,
      System_Tags = Some ''GitHub Issue #42;GitHub Repo: acme/widgets;GitHub Label: bug;''\<rparr>\<close>

definition world_with :: "work_item \<Rightarrow> issue \<Rightarrow> stub world" where
  \<open>world_with wi iss =
     \<lparr>svc = \<lparr>store = [wi], origin = iss, query_fails = False\<rparr>, failed = False, calls = []\<rparr>\<close>

definition mirror42_done :: work_item where
  \<open>mirror42_done = mirror42\<lparr>System_State := Some ''Done'', System_ChangedDate := Some 200\<rparr>\<close>

definition issue42_closed :: issue where
  \<open>issue42_closed = issue42\<lparr>state := ''closed''\<rparr>\<close>

definition offline_world :: "stub world" where
  \<open>offline_world =
     \<lparr>svc = \<lparr>store = [mirror42], origin = issue42, query_fails = True\<rparr>,
      failed = False, calls = []\<rparr>\<close>

definition after_create :: "stub world" where
  \<open>after_create = snd (createWorkItem plain stub_services acme_config False empty_world)\<close>

definition mirror42_reopened :: work_item where
  \<open>mirror42_reopened =
     mirror42\<lparr>System_State := Some ''To Do'', System_ChangedDate := Some 200\<rparr>\<close>

definition issue42_noado :: issue where
  \<open>issue42_noado = issue42\<lparr>labels := Some [\<lparr>name = Some ''bug''\<rparr>, \<lparr>name = Some ''NoADO''\<rparr>]\<rparr>\<close>

definition noado_config :: config where
  \<open>noado_config = acme_config\<lparr>action := Some ''edited'', issue := Some issue42_noado\<rparr>\<close>

definition noado_autocreate_config :: config where
  \<open>noado_autocreate_config = noado_config\<lparr>ado := acme_ado\<lparr>autoCreate := True\<rparr>\<rparr>\<close>

text \<open>Issue 42, opened by octocat, is closed by hubot.\<close>

definition closed_by_hubot :: config where
  \<open>closed_by_hubot = acme_config\<lparr>action := Some ''closed'', sender := hubot\<rparr>\<close>

text \<open>The same event where the environment holds an empty \<open>closed_at\<close>.\<close>

definition closed_config :: config where
  \<open>closed_config = closed_by_hubot\<lparr>closed_at := Some []\<rparr>\<close>

definition comment7 :: comment where
  \<open>comment7 =
     \<lparr>comment_id = 7, comment_body = Some ''Same here.'',
      comment_html_url = ''https://github.com/acme/widgets/issues/42#issuecomment-7'',
      comment_user = hubot\<rparr>\<close>

definition shared_states :: js_object where
  \<open>shared_states = [(''closed'', ''Done''), (''deleted'', ''Done''), (''reopened'', ''To Do'')]\<close>

definition bug :: label where
  \<open>bug = \<lparr>name = Some ''bug''\<rparr>\<close>


section \<open>Auxiliary facts\<close>

lemmas case_congs = prod.case_cong promise.case_cong option.case_cong list.case_cong

lemma sublist_right: "sublist x b \<Longrightarrow> sublist x (a @ b)"
  by (simp add: sublist_append)

lemma history_entry_here: "sublist act s \<Longrightarrow> history_entry act (history_op s # p)"
  by (simp add: history_entry_def history_op_def)

lemma history_entry_Cons: "history_entry act p \<Longrightarrow> history_entry act (x # p)"
  by (simp add: history_entry_def)

lemma history_entry_append: "history_entry act q \<Longrightarrow> history_entry act (p @ q)"
  by (simp add: history_entry_def)

lemma history_entry_append_left: "history_entry act p \<Longrightarrow> history_entry act (p @ q)"
  by (simp add: history_entry_def)

lemmas history_intros = history_entry_here history_entry_Cons history_entry_append
  sublist_append_rightI sublist_right

lemma history_create: "history_entry '' created in '' (createPatchDoc conv cfg i)"
  unfolding createPatchDoc_def Let_def
  by (rule history_entry_append_left) (intro history_intros)

lemma history_close:
  "closed_at cfg \<noteq> Some [] \<Longrightarrow> history_entry '' closed'' (closePatchDoc cfg i)"
  unfolding closePatchDoc_def
  by (simp only: if_True simp_thms) (intro history_intros)

lemma no_history_close: "closed_at cfg = Some [] \<Longrightarrow> \<not> touches_history (closePatchDoc cfg i)"
  by (simp add: closePatchDoc_def closeStateOps_def touches_history_def)

lemma history_delete: "history_entry '' removed'' (deletePatchDoc cfg i)"
  unfolding deletePatchDoc_def by (intro history_intros)

lemma history_reopen: "history_entry '' reopened'' (reopenPatchDoc cfg i)"
  unfolding reopenPatchDoc_def by (intro history_intros)

lemma history_edit: "history_entry '' edited'' (editPatchDoc conv cfg i)"
  unfolding editPatchDoc_def Let_def by (intro history_intros)

lemma history_label: "history_entry '' addition of label '' (labelPatchDoc cfg i l)"
  unfolding labelPatchDoc_def by (intro history_intros)

lemma history_unlabel: "history_entry '' removal of label '' (unlabelPatchDoc cfg i l tags)"
  unfolding unlabelPatchDoc_def by (intro history_intros)

lemma history_assign: "history_entry '' assigned to '' (assignPatchDoc cfg i)"
  unfolding assignPatchDoc_def by (intro history_intros)

lemma history_unassign:
  "history_entry '' removal of assignment to '' (unassignPatchDoc cfg i)"
  unfolding unassignPatchDoc_def by (intro history_intros)

lemma history_comment: "history_entry '' comment added'' (commentPatchDoc conv cfg i c)"
  unfolding commentPatchDoc_def Let_def by (intro history_intros)

lemma append_only_all:
  "history_append_only (createPatchDoc conv cfg i)"
  "history_append_only (closePatchDoc cfg i)"
  "history_append_only (deletePatchDoc cfg i)"
  "history_append_only (reopenPatchDoc cfg i)"
  "history_append_only (editPatchDoc conv cfg i)"
  "history_append_only (labelPatchDoc cfg i l)"
  "history_append_only (unlabelPatchDoc cfg i l tags)"
  "history_append_only (assignPatchDoc cfg i)"
  "history_append_only (unassignPatchDoc cfg i)"
  "history_append_only (commentPatchDoc conv cfg i c)"
  by (simp_all add: history_append_only_def createPatchDoc_def closePatchDoc_def
        closeStateOps_def deletePatchDoc_def reopenPatchDoc_def editPatchDoc_def
        labelPatchDoc_def unlabelPatchDoc_def assignPatchDoc_def unassignPatchDoc_def
        commentPatchDoc_def history_op_def Let_def)

lemma no_straddle:
  assumes p: "prefix L (t @ L)" and n: "\<not> prefix L t" and t: "t \<noteq> []"
    and L: "L = b @ [c]" and c: "c \<notin> set b"
  shows False
proof -
  from p n obtain us where us: "L = t @ us" "prefix us L"
    unfolding prefix_append by blast
  have ne: "us \<noteq> []"
    using us(1) n by auto
  have "last us = last L"
    using us(1) ne by simp
  then have lastus: "last us = c"
    using L by simp
  have "length us < length L"
    using us(1) t by (cases t) auto
  then have "us \<noteq> b @ [c]"
    using L by auto
  with us(2) have "prefix us b"
    unfolding L by simp
  then have "set us \<subseteq> set b"
    by (rule set_mono_prefix)
  moreover have "c \<in> set us"
    using lastus ne last_in_set by metis
  ultimately show False
    using c by auto
qed

lemma replace_first_appended:
  assumes L: "L = b @ [c]" and c: "c \<notin> set b"
  shows "\<not> sublist L s \<Longrightarrow> replace_first L [] (s @ L) = s"
proof (induction s)
  case Nil
  have "L \<noteq> []"
    using L by simp
  then have "replace_first L [] L = []"
    by (cases L) auto
  then show ?case by simp
next
  case (Cons x xs)
  then have ns: "\<not> prefix L (x # xs)" "\<not> sublist L xs"
    by (auto simp: sublist_Cons_right)
  have "\<not> prefix L ((x # xs) @ L)"
    using no_straddle[OF _ ns(1) _ L c] by blast
  then have "replace_first L [] ((x # xs) @ L) = x # replace_first L [] (xs @ L)"
    by simp
  then show ?case
    using Cons.IH[OF ns(2)] by simp
qed

lemma deriveStateKey_first:
  assumes "map_of sts k = Some v"
  shows "\<exists>n<length sts. deriveStateKey sts (Some v) = Some (fst (sts ! n)) \<and>
           map_of sts (fst (sts ! n)) = Some v \<and>
           (\<forall>j<n. map_of sts (fst (sts ! j)) \<noteq> Some v)"
proof -
  have "k \<in> set (map fst sts)"
    using assms by (metis map_of_eq_None_iff option.distinct(1) set_map)
  then have "find (\<lambda>k'. map_of sts k' = Some v) (map fst sts) \<noteq> None"
    using assms by (auto simp: find_None_iff)
  then obtain k' where f: "find (\<lambda>k'. map_of sts k' = Some v) (map fst sts) = Some k'"
    by auto
  then obtain n where n: "n < length (map fst sts)" "map_of sts (map fst sts ! n) = Some v"
      "k' = map fst sts ! n" "\<forall>j<n. map_of sts (map fst sts ! j) \<noteq> Some v"
    unfolding find_Some_iff by blast
  have "n < length sts"
    using n(1) by simp
  moreover have "deriveStateKey sts (Some v) = Some (fst (sts ! n))"
    using f n(1,3) by (simp add: deriveStateKey_def)
  moreover have "map_of sts (fst (sts ! n)) = Some v"
    using n(1,2) by simp
  moreover have "\<forall>j<n. map_of sts (fst (sts ! j)) \<noteq> Some v"
    using n(1,4) by simp
  ultimately show ?thesis
    by blast
qed

lemma getWorkItem_calls: "getWorkItem api cfg sk w = (r, w1) \<Longrightarrow> calls w1 = calls w"
  by (auto simp: getWorkItem_def fail_def
           split: if_splits prod.splits promise.splits option.splits list.splits)

lemma createWorkItem_located:
  "getWorkItem api cfg False w = (Item wi, w1) \<Longrightarrow>
   createWorkItem conv api cfg False w = (Num 0, w1)"
  by (simp add: createWorkItem_def)

lemma createWorkItem_Item_call:
  assumes "createWorkItem conv api cfg sk w = (Item r, w1)"
  shows "\<exists>i. issue cfg = Some i \<and>
           calls w1 = calls w @ [CreateWorkItemCall (createPatchDoc conv cfg i) (project (ado cfg))
                                   (wit (ado cfg)) (bypassRules (ado cfg))]"
proof -
  obtain f wg where g: "getWorkItem api cfg sk w = (f, wg)"
    by (cases "getWorkItem api cfg sk w")
  have c: "calls wg = calls w"
    using g by (rule getWorkItem_calls)
  show ?thesis
    using assms c unfolding createWorkItem_def g
    by (auto simp: fail_def Let_def
             split: if_splits prod.splits promise.splits option.splits)
qed

lemma createWorkItem_Item_calls:
  assumes "createWorkItem conv api cfg sk w = (Item r, w1)"
  shows "count_creates (calls w1) = Suc (count_creates (calls w))"
  using createWorkItem_Item_call[OF assms] by (auto simp: count_creates_def)

lemma createWorkItem_new_calls:
  "calls (snd (createWorkItem conv api cfg sk w)) = calls w \<or>
   (\<exists>i. issue cfg = Some i \<and>
        calls (snd (createWorkItem conv api cfg sk w)) =
          calls w @ [CreateWorkItemCall (createPatchDoc conv cfg i) (project (ado cfg))
                       (wit (ado cfg)) (bypassRules (ado cfg))])"
proof -
  obtain f wg where g: "getWorkItem api cfg sk w = (f, wg)"
    by (cases "getWorkItem api cfg sk w")
  have c: "calls wg = calls w"
    using g by (rule getWorkItem_calls)
  show ?thesis
    using c unfolding createWorkItem_def g
    by (auto simp: fail_def Let_def
             split: if_splits prod.splits promise.splits option.splits)
qed

lemma updateWorkItem_located:
  assumes "getWorkItem api cfg False w = (Item wi, w1)"
    and "getWorkItemTrackingApi api (svc w1) = (Resolved u, s2)"
  shows "calls (snd (updateWorkItem conv api cfg p w)) =
           calls w @ [UpdateWorkItemCall p (Some (wi_id wi)) (project (ado cfg))
                        (bypassRules (ado cfg))]"
  using assms getWorkItem_calls[OF assms(1)]
  by (simp add: updateWorkItem_def Let_def fail_def split: prod.splits promise.splits option.splits)

lemma updateWorkItem_absent:
  assumes "getWorkItem api cfg False w = (Null, w1)" and "\<not> autoCreate (ado cfg)"
  shows "updateWorkItem conv api cfg p w = (Num 0, w1)"
  using assms by (simp add: updateWorkItem_def)

lemma updateWorkItem_autocreated:
  assumes "getWorkItem api cfg False w = (Null, w1)" and "autoCreate (ado cfg)"
    and "createWorkItem conv api cfg True w1 = (Item wi, w2)"
    and "getWorkItemTrackingApi api (svc w2) = (Resolved u, s3)"
  shows "calls (snd (updateWorkItem conv api cfg p w)) =
           calls w2 @ [UpdateWorkItemCall p (Some (wi_id wi)) (project (ado cfg))
                        (bypassRules (ado cfg))]"
  using assms
  by (simp add: updateWorkItem_def Let_def fail_def split: prod.splits promise.splits option.splits)

lemma updateIssue_fetched:
  assumes "getOctokit api (github_token cfg)" and "GITHUB_REPOSITORY cfg = Some r"
    and "client_getWorkItem api wid reconciled_fields (svc w) = (Resolved (Some wiObj), s1)"
    and "System_Tags wiObj = Some tags"
    and "issue_number_of_tags tags = Some n" and "n \<noteq> []"
    and "issues_get api (interp (GITHUB_REPOSITORY_OWNER cfg)) (repo_name cfg r) n s1 =
           (Resolved iss, s2)"
  shows "calls (snd (updateIssue rt conv api cfg wid w)) =
           (if fresher rt wiObj iss \<and> differs rt conv cfg wiObj iss
            then calls w @ [UpdateIssueCall (interp (GITHUB_REPOSITORY_OWNER cfg)) (repo_name cfg r)
                              n (issue_update_of rt conv cfg wiObj)]
            else calls w)"
  using assms
  by (simp add: updateIssue_def Let_def truthy_def split: prod.splits promise.splits)

lemma updateIssue_same:
  assumes "client_getWorkItem api wid reconciled_fields (svc w) = (Resolved (Some wiObj), s1)"
    and "System_Tags wiObj = Some tags"
    and "issue_number_of_tags tags = Some n"
    and "\<And>r. GITHUB_REPOSITORY cfg = Some r \<Longrightarrow>
           issues_get api (interp (GITHUB_REPOSITORY_OWNER cfg)) (repo_name cfg r) n s1 =
             (Resolved iss, s2)"
    and "\<not> differs rt conv cfg wiObj iss"
  shows "calls (snd (updateIssue rt conv api cfg wid w)) = calls w"
  using assms
  by (simp add: updateIssue_def Let_def split: option.splits)

lemma first_create:
  "createWorkItem plain stub_services acme_config False empty_world = (Item mirror42, after_create)"
  by code_simp

lemma getWorkItem_action:
  "getWorkItem api (cfg\<lparr>action := a\<rparr>) sk w = getWorkItem api cfg sk w"
  by (simp add: getWorkItem_def wiql_query_def cong: case_congs)

lemma getAssignee_action: "getAssignee (cfg\<lparr>action := a\<rparr>) b = getAssignee cfg b"
  by (simp add: getAssignee_def Let_def cong: case_congs)

lemma createPatchDoc_action:
  "createPatchDoc conv (cfg\<lparr>action := a\<rparr>) i = createPatchDoc conv cfg i"
  by (simp add: createPatchDoc_def getAssignee_action)

lemma createWorkItem_action:
  "createWorkItem conv api (cfg\<lparr>action := a\<rparr>) sk w = createWorkItem conv api cfg sk w"
  by (simp add: createWorkItem_def getWorkItem_action createPatchDoc_action
           cong: case_congs if_cong)

lemma updateWorkItem_action:
  "updateWorkItem conv api (cfg\<lparr>action := a\<rparr>) p w = updateWorkItem conv api cfg p w"
  by (simp add: updateWorkItem_def getWorkItem_action createWorkItem_action
           cong: case_congs if_cong)

lemma deletePatchDoc_action: "deletePatchDoc (cfg\<lparr>action := a\<rparr>) i = deletePatchDoc cfg i"
  by (simp add: deletePatchDoc_def state_value_def issue_in_repo_def)

lemma performWork_noado:
  "issue cfg = Some i \<Longrightarrow> noado rt (labels i) \<Longrightarrow>
   performWork rt conv api cfg w = updateWorkItem conv api cfg (deletePatchDoc cfg i) w"
  by (simp add: performWork_def deleteWorkItem_def)

lemma deletePatchDoc_state:
  \<open>filter (\<lambda>x. path x = ''/fields/System.State'') (deletePatchDoc cfg i) =
     [\<lparr>op = Add, path = ''/fields/System.State'',
       val = (case map_of (states (ado cfg)) ''deleted'' of
                None \<Rightarrow> Undefined
              | Some v \<Rightarrow> Str v)\<rparr>]\<close>
  by (simp add: deletePatchDoc_def history_op_def state_value_def)

lemma deletePatchDoc_reason:
  \<open>filter (\<lambda>x. path x = ''/fields/IntuneAgile.ResolutionReason'') (deletePatchDoc cfg i) =
     [\<lparr>op = Add, path = ''/fields/IntuneAgile.ResolutionReason'', val = Str ''Won't Fix''\<rparr>]\<close>
  by (simp add: deletePatchDoc_def history_op_def)

lemma noado_iff:
  \<open>noado rt lbls \<longleftrightarrow>
     (\<exists>ls l nm. lbls = Some ls \<and> l \<in> set ls \<and> name l = Some nm \<and> toLowerCase rt nm = ''noado'')\<close>
  by (cases lbls) (auto simp: noado_def list_ex_iff)


section \<open>Idempotent creation\<close>

text \<open>
  C1. When the locator finds a work item for the configuration's repository and
  issue number, \<open>createWorkItem\<close> returns the sentinel 0 and issues no write: the
  log of calls is the one it started with. If moreover the world it starts from
  is the one a first \<open>createWorkItem\<close> left after creating an item, then after the
  second call exactly one create call has been issued by the two together.
\<close>

theorem createWorkItem_idempotent:
  assumes "getWorkItem api cfg False w = (Item wi, w')"
  shows "createWorkItem conv api cfg False w = (Num 0, w') \<and> calls w' = calls w \<and>
         (\<forall>w0 created. createWorkItem conv api cfg False w0 = (Item created, w) \<longrightarrow>
             count_creates (calls w') = Suc (count_creates (calls w0)))"
  using createWorkItem_located[OF assms] getWorkItem_calls[OF assms]
  by (auto dest: createWorkItem_Item_calls)

text \<open>
  On the in-memory services: issue 42 is created once, the second call finds it,
  returns 0, and the mirror still holds that one work item.
\<close>

theorem createWorkItem_idempotent_witness:
  "getWorkItem stub_services acme_config False after_create = (Item mirror42, after_create) \<and>
   createWorkItem plain stub_services acme_config False after_create = (Num 0, after_create) \<and>
   count_creates (calls after_create) = Suc (count_creates (calls empty_world)) \<and>
   store (svc after_create) = [mirror42]"
proof -
  have located:
    "getWorkItem stub_services acme_config False after_create = (Item mirror42, after_create)"
    by code_simp
  have st: "store (svc after_create) = [mirror42]"
    by code_simp
  from createWorkItem_idempotent[OF located, of plain] first_create located st
  show ?thesis by blast
qed


section \<open>Reverse reconciliation: freshness and the equality guard\<close>

text \<open>
  C2 (amended). Let the origin client be built and the repository be set, and let
  the work item, changed at \<open>t1\<close>, and its origin issue, updated at \<open>t2\<close>, be
  fetched, the issue number being read off the work item's tags. Then
  \<open>updateIssue\<close> issues a write to the origin issue iff \<open>t1 > t2\<close> strictly,
  no label of the issue has the lower-cased name \<open>noado\<close>, and the equality
  guard finds a difference: the candidate title, body or state differs from the
  issue's current value, or the candidate assignee handle, a string or absent,
  differs in lower case from the login of the issue's assignee. The write is then
  the single update call with the candidates. When \<open>t1 \<le> t2\<close> no call is
  issued.
\<close>

theorem reverse_write_condition:
  assumes "getOctokit api (github_token cfg)" and "GITHUB_REPOSITORY cfg = Some r"
    and "client_getWorkItem api wid reconciled_fields (svc w) = (Resolved (Some wiObj), s1)"
    and "System_Tags wiObj = Some tags"
    and "issue_number_of_tags tags = Some n" and "n \<noteq> []"
    and "issues_get api (interp (GITHUB_REPOSITORY_OWNER cfg)) (repo_name cfg r) n s1 =
           (Resolved iss, s2)"
    and "System_ChangedDate wiObj = Some t1" and "updated_at iss = Some t2"
  shows \<open>(calls (snd (updateIssue rt conv api cfg wid w)) \<noteq> calls w \<longleftrightarrow>
            t2 < t1 \<and>
            \<not> (\<exists>ls l nm. labels iss = Some ls \<and> l \<in> set ls \<and> name l = Some nm \<and>
                          toLowerCase rt nm = ''noado'') \<and>
            (System_Title wiObj \<noteq> Some (title iss) \<or>
             Some (candidate_body rt conv wiObj) \<noteq> body iss \<or>
             deriveStateKey (states (ado cfg)) (System_State wiObj) \<noteq> Some (state iss) \<or>
             (ghAssignedTo rt cfg wiObj \<noteq> Inherited \<and>
              lowered rt (ghAssignedTo rt cfg wiObj) \<noteq>
                map_option (\<lambda>a. toLowerCase rt (login a)) (assignee iss)))) \<and>
         (calls (snd (updateIssue rt conv api cfg wid w)) \<noteq> calls w \<longrightarrow>
            calls (snd (updateIssue rt conv api cfg wid w)) =
              calls w @ [UpdateIssueCall (interp (GITHUB_REPOSITORY_OWNER cfg)) (repo_name cfg r) n
                           \<lparr>new_title = System_Title wiObj,
                            new_body = candidate_body rt conv wiObj,
                            new_state = deriveStateKey (states (ado cfg)) (System_State wiObj),
                            new_assignees =
                              (if truthy_value (ghAssignedTo rt cfg wiObj)
                               then [ghAssignedTo rt cfg wiObj] else [])\<rparr>]) \<and>
         (t1 \<le> t2 \<longrightarrow> calls (snd (updateIssue rt conv api cfg wid w)) = calls w)\<close>
  unfolding updateIssue_fetched[OF assms(1-7)] noado_iff[of rt "labels iss", symmetric]
  by (simp add: fresher_def differs_def issue_update_of_def date_gt_def assms(8,9))

text \<open>
  The work item was changed at 200 and stands in the state mapped to
  \<open>reopened\<close>; the issue was updated at 100 and is closed: one update is issued,
  setting the state to \<open>reopened\<close>.
\<close>

theorem reverse_write_condition_witness:
  \<open>calls (snd (updateIssue ascii_runtime plain stub_services acme_config 1
              (world_with mirror42_reopened issue42_closed))) =
     [UpdateIssueCall ''acme'' ''widgets'' ''42''
        \<lparr>new_title = Some ''Crash on start'', new_body = ''It crashes.'',
         new_state = Some ''reopened'', new_assignees = []\<rparr>]\<close>
proof -
  have h0: "getOctokit stub_services (github_token acme_config)"
    by code_simp
  have hr: \<open>GITHUB_REPOSITORY acme_config = Some ''acme/widgets''\<close>
    by code_simp
  have h1: "client_getWorkItem stub_services 1 reconciled_fields
              (svc (world_with mirror42_reopened issue42_closed)) =
            (Resolved (Some mirror42_reopened), svc (world_with mirror42_reopened issue42_closed))"
    by code_simp
  have h2: \<open>System_Tags mirror42_reopened =
            Some ''GitHub Issue #42;GitHub Repo: acme/widgets;GitHub Label: bug;''\<close>
    by code_simp
  have h3: \<open>issue_number_of_tags
              ''GitHub Issue #42;GitHub Repo: acme/widgets;GitHub Label: bug;'' = Some ''42''\<close>
    by code_simp
  have h4: \<open>''42'' \<noteq> []\<close>
    by simp
  have h5: \<open>issues_get stub_services (interp (GITHUB_REPOSITORY_OWNER acme_config))
              (repo_name acme_config ''acme/widgets'') ''42''
              (svc (world_with mirror42_reopened issue42_closed)) =
            (Resolved issue42_closed, svc (world_with mirror42_reopened issue42_closed))\<close>
    by code_simp
  have d1: "System_ChangedDate mirror42_reopened = Some 200"
    by code_simp
  have d2: "updated_at issue42_closed = Some 100"
    by code_simp
  have "\<not> noado ascii_runtime (labels issue42_closed)"
    by code_simp
  note nolabel = this[unfolded noado_iff]
  have st: \<open>deriveStateKey (states (ado acme_config)) (System_State mirror42_reopened) =
            Some ''reopened''\<close>
    \<open>state issue42_closed = ''closed''\<close>
    by code_simp+
  have e: "calls (world_with mirror42_reopened issue42_closed) = []"
    by code_simp
  have o: \<open>interp (GITHUB_REPOSITORY_OWNER acme_config) = ''acme''\<close>
    \<open>repo_name acme_config ''acme/widgets'' = ''widgets''\<close>
    \<open>System_Title mirror42_reopened = Some ''Crash on start''\<close>
    \<open>candidate_body ascii_runtime plain mirror42_reopened = ''It crashes.''\<close>
    \<open>ghAssignedTo ascii_runtime acme_config mirror42_reopened = Undefined\<close>
    by code_simp+
  note t = reverse_write_condition[OF h0 hr h1 h2 h3 h4 h5 d1 d2, of ascii_runtime plain]
  have ne: "calls (snd (updateIssue ascii_runtime plain stub_services acme_config 1
                         (world_with mirror42_reopened issue42_closed))) \<noteq>
            calls (world_with mirror42_reopened issue42_closed)"
    unfolding t[THEN conjunct1] using nolabel st by simp
  from t[THEN conjunct2, THEN conjunct1, rule_format, OF ne]
  show ?thesis
    unfolding e o st by simp
qed

text \<open>
  The claim as first stated fails: here the work item is strictly fresher (200
  against 100) and the issue has no exclude label, yet nothing is written, since
  every candidate equals the issue's current value.
\<close>

theorem reverse_write_counterexample:
  "date_gt (System_ChangedDate mirror42_done) (updated_at issue42_closed) \<and>
   \<not> noado ascii_runtime (labels issue42_closed) \<and>
   calls (snd (updateIssue ascii_runtime plain stub_services acme_config 1
                (world_with mirror42_done issue42_closed))) =
   calls (world_with mirror42_done issue42_closed)"
  by code_simp

text \<open>
  C3. For a fetched work item and origin issue that pass the freshness test: if
  the candidate title, body and state equal the issue's current values and the
  candidate assignee equals the issue's assignee once both are lower-cased, then
  \<open>updateIssue\<close> issues no call at all.
\<close>

theorem equality_guard:
  assumes "client_getWorkItem api wid reconciled_fields (svc w) = (Resolved (Some wiObj), s1)"
    and "System_Tags wiObj = Some tags"
    and "issue_number_of_tags tags = Some n"
    and "GITHUB_REPOSITORY cfg = Some r"
    and "issues_get api (interp (GITHUB_REPOSITORY_OWNER cfg)) (repo_name cfg r) n s1 =
           (Resolved iss, s2)"
    and "fresher rt wiObj iss"
    and "System_Title wiObj = Some (title iss)"
    and "Some (candidate_body rt conv wiObj) = body iss"
    and "deriveStateKey (states (ado cfg)) (System_State wiObj) = Some (state iss)"
    and "lowered rt (ghAssignedTo rt cfg wiObj) =
           map_option (\<lambda>a. toLowerCase rt (login a)) (assignee iss)"
  shows "calls (snd (updateIssue rt conv api cfg wid w)) = calls w"
proof -
  have "\<not> differs rt conv cfg wiObj iss"
    using assms(7-10) by (simp add: differs_def)
  then show ?thesis
    using assms(1-5) by (simp add: updateIssue_def Let_def)
qed

theorem equality_guard_witness:
  "fresher ascii_runtime mirror42_done issue42_closed \<and>
   calls (snd (updateIssue ascii_runtime plain stub_services acme_config 1
                (world_with mirror42_done issue42_closed))) = []"
proof -
  have h1: "client_getWorkItem stub_services 1 reconciled_fields
              (svc (world_with mirror42_done issue42_closed)) =
            (Resolved (Some mirror42_done), svc (world_with mirror42_done issue42_closed))"
    by code_simp
  have h2: \<open>System_Tags mirror42_done =
            Some ''GitHub Issue #42;GitHub Repo: acme/widgets;GitHub Label: bug;''\<close>
    by code_simp
  have h3: \<open>issue_number_of_tags
              ''GitHub Issue #42;GitHub Repo: acme/widgets;GitHub Label: bug;'' = Some ''42''\<close>
    by code_simp
  have hr: \<open>GITHUB_REPOSITORY acme_config = Some ''acme/widgets''\<close>
    by code_simp
  have h4: \<open>issues_get stub_services (interp (GITHUB_REPOSITORY_OWNER acme_config))
              (repo_name acme_config ''acme/widgets'') ''42''
              (svc (world_with mirror42_done issue42_closed)) =
            (Resolved issue42_closed, svc (world_with mirror42_done issue42_closed))\<close>
    by code_simp
  have h5: "fresher ascii_runtime mirror42_done issue42_closed"
    by code_simp
  have h6: "System_Title mirror42_done = Some (title issue42_closed)"
    by code_simp
  have h7: "Some (candidate_body ascii_runtime plain mirror42_done) = body issue42_closed"
    by code_simp
  have h8: "deriveStateKey (states (ado acme_config)) (System_State mirror42_done) =
            Some (state issue42_closed)"
    by code_simp
  have h9: "lowered ascii_runtime (ghAssignedTo ascii_runtime acme_config mirror42_done) =
            map_option (\<lambda>a. toLowerCase ascii_runtime (login a)) (assignee issue42_closed)"
    by code_simp
  have e: "calls (world_with mirror42_done issue42_closed) = []"
    by code_simp
  from equality_guard[OF h1 h2 h3 hr h4 h5 h6 h7 h8 h9] h5 e
  show ?thesis by simp
qed


section \<open>The audit history in patch documents\<close>

text \<open>
  C4 (amended). The patch built for create, delete, reopen, edit, label, unlabel,
  assign, unassign and comment holds an add operation on the history field whose
  text describes the action. The patch built for close holds one exactly when
  \<open>config.closed_at\<close> is not the empty string; when it is the empty string the
  close patch has no operation on the history field. No patch of the ten holds a
  replace or remove operation on the history field. Which user the text names is
  left open.
\<close>

theorem history_always_appended:
  \<open>history_entry '' created in '' (createPatchDoc conv cfg i) \<and>
   (closed_at cfg \<noteq> Some [] \<longrightarrow> history_entry '' closed'' (closePatchDoc cfg i)) \<and>
   (closed_at cfg = Some [] \<longrightarrow> \<not> touches_history (closePatchDoc cfg i)) \<and>
   history_entry '' removed'' (deletePatchDoc cfg i) \<and>
   history_entry '' reopened'' (reopenPatchDoc cfg i) \<and>
   history_entry '' edited'' (editPatchDoc conv cfg i) \<and>
   history_entry '' addition of label '' (labelPatchDoc cfg i l) \<and>
   history_entry '' removal of label '' (unlabelPatchDoc cfg i l tags) \<and>
   history_entry '' assigned to '' (assignPatchDoc cfg i) \<and>
   history_entry '' removal of assignment to '' (unassignPatchDoc cfg i) \<and>
   history_entry '' comment added'' (commentPatchDoc conv cfg i c) \<and>
   history_append_only (createPatchDoc conv cfg i) \<and>
   history_append_only (closePatchDoc cfg i) \<and>
   history_append_only (deletePatchDoc cfg i) \<and>
   history_append_only (reopenPatchDoc cfg i) \<and>
   history_append_only (editPatchDoc conv cfg i) \<and>
   history_append_only (labelPatchDoc cfg i l) \<and>
   history_append_only (unlabelPatchDoc cfg i l tags) \<and>
   history_append_only (assignPatchDoc cfg i) \<and>
   history_append_only (unassignPatchDoc cfg i) \<and>
   history_append_only (commentPatchDoc conv cfg i c)\<close>
  by (intro conjI impI history_create history_close no_history_close history_delete
        history_reopen history_edit history_label history_unlabel history_assign
        history_unassign history_comment append_only_all)

theorem history_always_appended_witness:
  \<open>closed_at closed_by_hubot \<noteq> Some [] \<and>
   history_entry '' closed'' (closePatchDoc closed_by_hubot issue42) \<and>
   closed_at closed_config = Some [] \<and>
   \<not> touches_history (closePatchDoc closed_config issue42) \<and>
   history_entry '' comment added'' (commentPatchDoc plain acme_config issue42 comment7) \<and>
   history_append_only (unlabelPatchDoc acme_config issue42 bug ''GitHub Label: bug;'')\<close>
proof -
  have a: "closed_at closed_by_hubot \<noteq> Some []"
    by code_simp
  have b: "closed_at closed_config = Some []"
    by code_simp
  from history_always_appended[of plain closed_by_hubot issue42 bug "''GitHub Label: bug;''" comment7]
       history_always_appended[of plain closed_config issue42 bug "''GitHub Label: bug;''" comment7]
       history_always_appended[of plain acme_config issue42 bug "''GitHub Label: bug;''" comment7]
       a b
  show ?thesis by blast
qed

text \<open>
  The claim as first stated fails twice for the close event. Issue 42 was opened
  by octocat and is closed by hubot, the event's sender: the history text of the
  close patch does not hold \<open>hubot\<close> (it holds \<open>octocat\<close>, the issue's
  author). And with \<open>closed_at\<close> the empty string in the environment, the close
  patch has no operation on the history field.
\<close>

theorem close_history_counterexample:
  \<open>login (sender closed_by_hubot) = ''hubot'' \<and>
   \<not> history_mentions ''hubot'' (closePatchDoc closed_by_hubot issue42) \<and>
   history_mentions ''octocat'' (closePatchDoc closed_by_hubot issue42) \<and>
   closed_at closed_config = Some [] \<and>
   \<not> touches_history (closePatchDoc closed_config issue42)\<close>
  by code_simp


section \<open>The exclude label\<close>

text \<open>
  C5 (amended). When the issue carries a label whose lower-cased name is
  \<open>noado\<close>, \<open>performWork\<close> runs the delete handler and never the handler of the
  event's action: its result and effects are those of submitting the delete
  patch, whatever the action is. The delete patch sets the state field to the
  value configured under \<open>deleted\<close> and the resolution reason to \<open>Won't Fix\<close>.
  With a counterpart located and the connection made, the one call issued is the
  update of that work item with the delete patch. With no counterpart and no
  automatic creation, nothing is applied and 0 is returned. With no counterpart
  and automatic creation, the work item is first created by the create path and
  the delete patch is then submitted to it.
\<close>

theorem noado_forces_delete:
  assumes "issue cfg = Some i" and "labels i = Some ls" and "l \<in> set ls"
    and "name l = Some nm" and \<open>toLowerCase rt nm = ''noado''\<close>
  shows \<open>performWork rt conv api cfg w = updateWorkItem conv api cfg (deletePatchDoc cfg i) w \<and>
     performWork rt conv api (cfg\<lparr>action := a\<rparr>) w = performWork rt conv api cfg w \<and>
     filter (\<lambda>x. path x = ''/fields/System.State'') (deletePatchDoc cfg i) =
       [\<lparr>op = Add, path = ''/fields/System.State'',
         val = (case map_of (states (ado cfg)) ''deleted'' of
                  None \<Rightarrow> Undefined
                | Some v \<Rightarrow> Str v)\<rparr>] \<and>
     filter (\<lambda>x. path x = ''/fields/IntuneAgile.ResolutionReason'') (deletePatchDoc cfg i) =
       [\<lparr>op = Add, path = ''/fields/IntuneAgile.ResolutionReason'', val = Str ''Won't Fix''\<rparr>] \<and>
     (\<forall>wi w1 u s2.
        getWorkItem api cfg False w = (Item wi, w1) \<and>
        getWorkItemTrackingApi api (svc w1) = (Resolved u, s2) \<longrightarrow>
        calls (snd (performWork rt conv api cfg w)) =
          calls w @ [UpdateWorkItemCall (deletePatchDoc cfg i) (Some (wi_id wi))
                       (project (ado cfg)) (bypassRules (ado cfg))]) \<and>
     (\<forall>w1. getWorkItem api cfg False w = (Null, w1) \<and> \<not> autoCreate (ado cfg) \<longrightarrow>
        performWork rt conv api cfg w = (Num 0, w1) \<and> calls w1 = calls w) \<and>
     (\<forall>w1 wi w2 u s3.
        getWorkItem api cfg False w = (Null, w1) \<and> autoCreate (ado cfg) \<and>
        createWorkItem conv api cfg True w1 = (Item wi, w2) \<and>
        getWorkItemTrackingApi api (svc w2) = (Resolved u, s3) \<longrightarrow>
        calls (snd (performWork rt conv api cfg w)) =
          calls w @ [CreateWorkItemCall (createPatchDoc conv cfg i) (project (ado cfg))
                       (wit (ado cfg)) (bypassRules (ado cfg)),
                     UpdateWorkItemCall (deletePatchDoc cfg i) (Some (wi_id wi))
                       (project (ado cfg)) (bypassRules (ado cfg))])\<close>
proof -
  have nd: "noado rt (labels i)"
    unfolding noado_iff using assms(2-5) by blast
  have 1: "performWork rt conv api cfg w = updateWorkItem conv api cfg (deletePatchDoc cfg i) w"
    using assms(1) nd by (rule performWork_noado)
  have "issue (cfg\<lparr>action := a\<rparr>) = Some i"
    using assms(1) by simp
  then have "performWork rt conv api (cfg\<lparr>action := a\<rparr>) w =
      updateWorkItem conv api (cfg\<lparr>action := a\<rparr>) (deletePatchDoc (cfg\<lparr>action := a\<rparr>) i) w"
    using nd by (rule performWork_noado)
  then have 2: "performWork rt conv api (cfg\<lparr>action := a\<rparr>) w = performWork rt conv api cfg w"
    by (simp add: 1 updateWorkItem_action deletePatchDoc_action)
  have 3: "calls (snd (performWork rt conv api cfg w)) =
          calls w @ [UpdateWorkItemCall (deletePatchDoc cfg i) (Some (wi_id wi))
                       (project (ado cfg)) (bypassRules (ado cfg))]"
    if "getWorkItem api cfg False w = (Item wi, w1)"
      and "getWorkItemTrackingApi api (svc w1) = (Resolved u, s2)" for wi w1 u s2
    unfolding 1 using that by (rule updateWorkItem_located)
  have 4: "performWork rt conv api cfg w = (Num 0, w1) \<and> calls w1 = calls w"
    if "getWorkItem api cfg False w = (Null, w1)" and "\<not> autoCreate (ado cfg)" for w1
    unfolding 1 using updateWorkItem_absent[OF that] getWorkItem_calls[OF that(1)] by simp
  have 5: "calls (snd (performWork rt conv api cfg w)) =
          calls w @ [CreateWorkItemCall (createPatchDoc conv cfg i) (project (ado cfg))
                       (wit (ado cfg)) (bypassRules (ado cfg)),
                     UpdateWorkItemCall (deletePatchDoc cfg i) (Some (wi_id wi))
                       (project (ado cfg)) (bypassRules (ado cfg))]"
    if g: "getWorkItem api cfg False w = (Null, w1)" and ac: "autoCreate (ado cfg)"
      and cr: "createWorkItem conv api cfg True w1 = (Item wi, w2)"
      and cn: "getWorkItemTrackingApi api (svc w2) = (Resolved u, s3)" for w1 wi w2 u s3
  proof -
    have "calls w2 = calls w1 @ [CreateWorkItemCall (createPatchDoc conv cfg i) (project (ado cfg))
                       (wit (ado cfg)) (bypassRules (ado cfg))]"
      using createWorkItem_Item_call[OF cr] assms(1) by simp
    moreover have "calls w1 = calls w"
      using g by (rule getWorkItem_calls)
    ultimately show ?thesis
      unfolding 1 updateWorkItem_autocreated[OF g ac cr cn] by simp
  qed
  show ?thesis
    using 1 2 3 4 5 deletePatchDoc_state deletePatchDoc_reason by blast
qed

text \<open>
  An \<open>edited\<close> event on issue 42 labelled \<open>NoADO\<close>, its work item in the
  mirror: the one call issued is the update of work item 1 with the delete patch,
  whose state value is the configured \<open>Removed\<close>.
\<close>

theorem noado_forces_delete_witness:
  \<open>noado ascii_runtime (labels issue42_noado) \<and>
   calls (snd (performWork ascii_runtime plain stub_services noado_config
                (world_with mirror42 issue42_noado))) =
     [UpdateWorkItemCall (deletePatchDoc noado_config issue42_noado) (Some 1) ''Widgets'' False] \<and>
   filter (\<lambda>x. path x = ''/fields/System.State'') (deletePatchDoc noado_config issue42_noado) =
     [\<lparr>op = Add, path = ''/fields/System.State'', val = Str ''Removed''\<rparr>]\<close>
proof -
  have h1: "issue noado_config = Some issue42_noado"
    by code_simp
  have h2: "noado ascii_runtime (labels issue42_noado)"
    by code_simp
  have l1: \<open>labels issue42_noado = Some [\<lparr>name = Some ''bug''\<rparr>, \<lparr>name = Some ''NoADO''\<rparr>]\<close>
    by code_simp
  have l2: \<open>\<lparr>name = Some ''NoADO''\<rparr> \<in> set [\<lparr>name = Some ''bug''\<rparr>, \<lparr>name = Some ''NoADO''\<rparr>]\<close>
    by simp
  have l3: \<open>name \<lparr>name = Some ''NoADO''\<rparr> = Some ''NoADO''\<close>
    by simp
  have l4: \<open>toLowerCase ascii_runtime ''NoADO'' = ''noado''\<close>
    by code_simp
  have g: "getWorkItem stub_services noado_config False (world_with mirror42 issue42_noado) =
             (Item mirror42, world_with mirror42 issue42_noado)"
    by code_simp
  have c: "getWorkItemTrackingApi stub_services (svc (world_with mirror42 issue42_noado)) =
             (Resolved (), svc (world_with mirror42 issue42_noado))"
    by code_simp
  have v: \<open>map_of (states (ado noado_config)) ''deleted'' = Some ''Removed''\<close>
     \<open>wi_id mirror42 = 1\<close> \<open>project (ado noado_config) = ''Widgets''\<close>
     \<open>bypassRules (ado noado_config) = False\<close>
     \<open>calls (world_with mirror42 issue42_noado) = []\<close>
    by code_simp+
  note t = noado_forces_delete[OF h1 l1 l2 l3 l4, of plain stub_services
                "world_with mirror42 issue42_noado" "Some ''edited''"]
  note st = t[THEN conjunct2, THEN conjunct2, THEN conjunct1]
  note lc = t[THEN conjunct2, THEN conjunct2, THEN conjunct2, THEN conjunct2, THEN conjunct1,
              rule_format, OF conjI, OF g c]
  show ?thesis
    using h2 st lc unfolding v by simp
qed

text \<open>
  The claim as first stated fails when the issue has no work item yet and
  automatic creation is off: the same event applies nothing and returns 0.
\<close>

theorem noado_forces_delete_counterexample:
  \<open>noado ascii_runtime (labels issue42_noado) \<and>
   performWork ascii_runtime plain stub_services noado_config empty_world = (Num 0, empty_world) \<and>
   calls empty_world = []\<close>
  by code_simp


section \<open>A failing locator\<close>

text \<open>
  C6. The locator reports a failed connection, query or fetch as -1 and marks the
  run failed, but its callers test the result for truthiness only. With the query
  rejected: \<open>getWorkItem\<close> gives -1 and sets the failure flag; \<open>createWorkItem\<close>
  then takes -1 for a found work item and returns 0, the signal for an item that
  already exists; \<open>closeWorkItem\<close> goes on to issue an update call whose work item
  id is undefined.
\<close>

theorem locator_failure_taken_for_item:
  \<open>getWorkItem stub_services acme_config False offline_world =
     (Num (- 1), offline_world\<lparr>failed := True\<rparr>) \<and>
   createWorkItem plain stub_services acme_config False offline_world =
     (Num 0, offline_world\<lparr>failed := True\<rparr>) \<and>
   calls (snd (closeWorkItem plain stub_services acme_config offline_world)) =
     [UpdateWorkItemCall (closePatchDoc acme_config issue42) None ''Widgets'' False]\<close>
  by code_simp


section \<open>The create patch\<close>

text \<open>
  C7. For issue number 42 in repository \<open>acme/widgets\<close> with the one label
  \<open>bug\<close> and no assignee, the create patch has exactly one operation on the tag
  field, an add of
  \<open>GitHub Issue #42;GitHub Repo: acme/widgets;GitHub Label: bug;\<close>, and no
  operation on the state field.
\<close>

theorem createPatchDoc_scenario:
  assumes "number i = 42" and \<open>full_name (repository cfg) = ''acme/widgets''\<close>
    and \<open>labels i = Some [\<lparr>name = Some ''bug''\<rparr>]\<close> and "assignee i = None"
  shows \<open>filter (\<lambda>x. path x = ''/fields/System.Tags'') (createPatchDoc conv cfg i) =
           [\<lparr>op = Add, path = ''/fields/System.Tags'',
             val = Str ''GitHub Issue #42;GitHub Repo: acme/widgets;GitHub Label: bug;''\<rparr>] \<and>
         filter (\<lambda>x. path x = ''/fields/System.State'') (createPatchDoc conv cfg i) = []\<close>
  using assms
  by (simp add: createPatchDoc_def Let_def createLabels_def string_of_nat.simps interp_def
        history_op_def)

theorem createPatchDoc_scenario_witness:
  \<open>filter (\<lambda>x. path x = ''/fields/System.Tags'') (createPatchDoc plain acme_config issue42) =
     [\<lparr>op = Add, path = ''/fields/System.Tags'',
       val = Str ''GitHub Issue #42;GitHub Repo: acme/widgets;GitHub Label: bug;''\<rparr>] \<and>
   filter (\<lambda>x. path x = ''/fields/System.State'') (createPatchDoc plain acme_config issue42) = []\<close>
proof -
  have h1: "number issue42 = 42"
    by code_simp
  have h2: \<open>full_name (repository acme_config) = ''acme/widgets''\<close>
    by code_simp
  have h3: \<open>labels issue42 = Some [\<lparr>name = Some ''bug''\<rparr>]\<close>
    by code_simp
  have h4: "assignee issue42 = None"
    by code_simp
  show ?thesis
    by (rule createPatchDoc_scenario[OF h1 h2 h3 h4])
qed

text \<open>
  C10. Whatever the converter, the configuration and the issue, the create patch
  holds an add operation on \<open>/relations/-\<close> whose value is the parent link
  (\<open>System.LinkTypes.Hierarchy-Reverse\<close>) to work item 24493735 at the fixed
  URL. The calls that \<open>createWorkItem\<close> adds to the log are create calls whose
  patch holds that link, and whenever \<open>createWorkItem\<close> returns a created work
  item it has issued exactly one such call: every work item is created with the
  parent link.
\<close>

theorem createPatchDoc_parent_link:
  \<open>\<lparr>op = Add, path = ''/relations/-'',
     val = Relation ''System.LinkTypes.Hierarchy-Reverse''
             ''https://dev.azure.com/msazure/one/_apis/wit/workItems/24493735''\<rparr>
     \<in> set (createPatchDoc conv cfg i) \<and>
   (\<exists>new. calls (snd (createWorkItem conv api cfg skipQuery w)) = calls w @ new \<and>
      (\<forall>c \<in> set new.
         \<exists>p. c = CreateWorkItemCall p (project (ado cfg)) (wit (ado cfg)) (bypassRules (ado cfg)) \<and>
             \<lparr>op = Add, path = ''/relations/-'',
               val = Relation ''System.LinkTypes.Hierarchy-Reverse''
                       ''https://dev.azure.com/msazure/one/_apis/wit/workItems/24493735''\<rparr>
               \<in> set p)) \<and>
   (\<forall>created w'.
      createWorkItem conv api cfg skipQuery w = (Item created, w') \<longrightarrow>
      (\<exists>p. calls w' =
             calls w @ [CreateWorkItemCall p (project (ado cfg)) (wit (ado cfg))
                          (bypassRules (ado cfg))] \<and>
           \<lparr>op = Add, path = ''/relations/-'',
             val = Relation ''System.LinkTypes.Hierarchy-Reverse''
                     ''https://dev.azure.com/msazure/one/_apis/wit/workItems/24493735''\<rparr>
             \<in> set p))\<close>
proof -
  have link: \<open>\<lparr>op = Add, path = ''/relations/-'',
     val = Relation ''System.LinkTypes.Hierarchy-Reverse''
             ''https://dev.azure.com/msazure/one/_apis/wit/workItems/24493735''\<rparr>
     \<in> set (createPatchDoc conv cfg j)\<close> for j
    by (simp add: createPatchDoc_def Let_def)
  have 2: \<open>\<exists>new. calls (snd (createWorkItem conv api cfg skipQuery w)) = calls w @ new \<and>
      (\<forall>c \<in> set new.
         \<exists>p. c = CreateWorkItemCall p (project (ado cfg)) (wit (ado cfg)) (bypassRules (ado cfg)) \<and>
             \<lparr>op = Add, path = ''/relations/-'',
               val = Relation ''System.LinkTypes.Hierarchy-Reverse''
                       ''https://dev.azure.com/msazure/one/_apis/wit/workItems/24493735''\<rparr>
               \<in> set p)\<close>
  proof -
    from createWorkItem_new_calls[of conv api cfg skipQuery w]
    consider "calls (snd (createWorkItem conv api cfg skipQuery w)) = calls w"
      | j where "calls (snd (createWorkItem conv api cfg skipQuery w)) =
          calls w @ [CreateWorkItemCall (createPatchDoc conv cfg j) (project (ado cfg))
                       (wit (ado cfg)) (bypassRules (ado cfg))]"
      by blast
    then show ?thesis
    proof cases
      case 1
      then show ?thesis
        by (intro exI[of _ "[]"]) simp
    next
      case 2
      then show ?thesis
        using link[of j]
        by (intro exI[of _ "[CreateWorkItemCall (createPatchDoc conv cfg j) (project (ado cfg))
                       (wit (ado cfg)) (bypassRules (ado cfg))]"]) simp
    qed
  qed
  have 3: \<open>\<exists>p. calls w' =
             calls w @ [CreateWorkItemCall p (project (ado cfg)) (wit (ado cfg))
                          (bypassRules (ado cfg))] \<and>
           \<lparr>op = Add, path = ''/relations/-'',
             val = Relation ''System.LinkTypes.Hierarchy-Reverse''
                     ''https://dev.azure.com/msazure/one/_apis/wit/workItems/24493735''\<rparr>
             \<in> set p\<close>
    if "createWorkItem conv api cfg skipQuery w = (Item created, w')" for created w'
    using createWorkItem_Item_call[OF that] link by blast
  show ?thesis
    using link[of i] 2 3 by blast
qed

text \<open>
  Creating issue 42 on the in-memory services issues one create call; its patch
  is the create patch and holds the parent link.
\<close>

theorem createPatchDoc_parent_link_witness:
  \<open>createWorkItem plain stub_services acme_config False empty_world = (Item mirror42, after_create) \<and>
   (\<exists>p. calls after_create = calls empty_world @ [CreateWorkItemCall p ''Widgets'' ''Bug'' False] \<and>
        \<lparr>op = Add, path = ''/relations/-'',
          val = Relation ''System.LinkTypes.Hierarchy-Reverse''
                  ''https://dev.azure.com/msazure/one/_apis/wit/workItems/24493735''\<rparr>
          \<in> set p)\<close>
proof -
  have v: \<open>project (ado acme_config) = ''Widgets''\<close> \<open>wit (ado acme_config) = ''Bug''\<close>
    \<open>bypassRules (ado acme_config) = False\<close>
    by code_simp+
  note t = createPatchDoc_parent_link[of plain acme_config issue42 stub_services False empty_world]
  note c = t[THEN conjunct2, THEN conjunct2, rule_format, OF first_create]
  show ?thesis
    using first_create c unfolding v by simp
qed


section \<open>The reverse state lookup\<close>

text \<open>
  C8 (amended). For a state table and a key \<open>k\<close> configured in it (in particular
  \<open>closed\<close>, \<open>deleted\<close> or \<open>reopened\<close>), the reverse lookup of the value stored
  under \<open>k\<close> returns the first key of the table, in key order, that stores that
  value: the key at some position \<open>n\<close> stores it and no key at an earlier
  position does. It returns \<open>k\<close> itself when no other key stores that value.
\<close>

theorem deriveStateKey_inverse:
  assumes "map_of sts k = Some v"
  shows "(\<exists>n<length sts.
            deriveStateKey sts (map_of sts k) = Some (fst (sts ! n)) \<and>
            map_of sts (fst (sts ! n)) = map_of sts k \<and>
            (\<forall>j<n. map_of sts (fst (sts ! j)) \<noteq> map_of sts k)) \<and>
         ((\<forall>k'. map_of sts k' = Some v \<longrightarrow> k' = k) \<longrightarrow>
            deriveStateKey sts (map_of sts k) = Some k)"
proof -
  from deriveStateKey_first[OF assms] obtain n
    where n: "n < length sts" "deriveStateKey sts (Some v) = Some (fst (sts ! n))"
      "map_of sts (fst (sts ! n)) = Some v" "\<forall>j<n. map_of sts (fst (sts ! j)) \<noteq> Some v"
    by blast
  have 1: "\<exists>n<length sts.
            deriveStateKey sts (Some v) = Some (fst (sts ! n)) \<and>
            map_of sts (fst (sts ! n)) = Some v \<and>
            (\<forall>j<n. map_of sts (fst (sts ! j)) \<noteq> Some v)"
    using n by blast
  have 2: "(\<forall>k'. map_of sts k' = Some v \<longrightarrow> k' = k) \<longrightarrow> deriveStateKey sts (Some v) = Some k"
    using n(2,3) by auto
  show ?thesis
    unfolding assms using 1 2 by (rule conjI)
qed

text \<open>
  In the example table each value is stored once, and \<open>reopened\<close> comes back;
  in the table that stores \<open>Done\<close> under both \<open>closed\<close> and \<open>deleted\<close>, the
  lookup of the value under \<open>deleted\<close> gives the key at position 0.
\<close>

theorem deriveStateKey_inverse_witness:
  \<open>deriveStateKey (states acme_ado) (map_of (states acme_ado) ''reopened'') = Some ''reopened'' \<and>
   (\<exists>n<length shared_states.
      deriveStateKey shared_states (map_of shared_states ''deleted'') =
        Some (fst (shared_states ! n)) \<and>
      (\<forall>j<n. map_of shared_states (fst (shared_states ! j)) \<noteq>
               map_of shared_states ''deleted''))\<close>
proof -
  have h: \<open>map_of (states acme_ado) ''reopened'' = Some ''To Do''\<close>
    by code_simp
  have u: \<open>\<forall>k'. map_of (states acme_ado) k' = Some ''To Do'' \<longrightarrow> k' = ''reopened''\<close>
    by (simp add: acme_ado_def)
  have h': \<open>map_of shared_states ''deleted'' = Some ''Done''\<close>
    by code_simp
  from deriveStateKey_inverse[OF h] deriveStateKey_inverse[OF h'] u show ?thesis
    by blast
qed

text \<open>
  The claim as first stated fails when two keys store one value: with \<open>closed\<close>
  and \<open>deleted\<close> both mapped to \<open>Done\<close>, the lookup of the value under
  \<open>deleted\<close> returns \<open>closed\<close>.
\<close>

theorem deriveStateKey_counterexample:
  \<open>map_of shared_states ''deleted'' = Some ''Done'' \<and>
   deriveStateKey shared_states (map_of shared_states ''deleted'') = Some ''closed'' \<and>
   deriveStateKey shared_states (map_of shared_states ''deleted'') \<noteq> Some ''deleted''\<close>
  by code_simp


section \<open>Label and unlabel\<close>

text \<open>
  C9 (amended). The label patch adds the text \<open>GitHub Label: <name>;\<close> to the
  tag field; the mirror service appends it to the tags it holds. For a label name
  without \<open>;\<close> and a tag string \<open>s\<close> that does not already hold that text, the
  tag subtraction of unlabel, applied to \<open>s\<close> followed by that text, gives \<open>s\<close>
  back.
\<close>

theorem unlabel_after_label:
  assumes \<open>CHR '';'' \<notin> set (interp (name l))\<close>
    and \<open>\<not> sublist (createLabels [] (Some [l])) s\<close>
  shows \<open>unlabelTags (s @ createLabels [] (Some [l])) l = s\<close>
  unfolding unlabelTags_def
  by (rule replace_first_appended[where b="''GitHub Label: '' @ interp (name l)"
        and c="CHR '';''"])
     (use assms in \<open>auto simp: createLabels_def\<close>)

theorem unlabel_after_label_witness:
  \<open>unlabelTags (''GitHub Issue #42;GitHub Repo: acme/widgets;'' @ createLabels [] (Some [bug]))
     bug =
   ''GitHub Issue #42;GitHub Repo: acme/widgets;''\<close>
proof -
  have h1: \<open>CHR '';'' \<notin> set (interp (name bug))\<close>
    by code_simp
  have h2: \<open>\<not> sublist (createLabels [] (Some [bug]))
                ''GitHub Issue #42;GitHub Repo: acme/widgets;''\<close>
    by code_simp
  show ?thesis
    by (rule unlabel_after_label[OF h1 h2])
qed

text \<open>
  The claim as first stated fails for a tag string that already holds the label's
  text: the subtraction cuts the first occurrence, not the appended one.
\<close>

theorem unlabel_after_label_counterexample:
  \<open>CHR '';'' \<notin> set (interp (name bug)) \<and>
   unlabelTags (''GitHub Label: bug;GitHub Issue #42;'' @ createLabels [] (Some [bug])) bug =
     ''GitHub Issue #42;GitHub Label: bug;'' \<and>
   unlabelTags (''GitHub Label: bug;GitHub Issue #42;'' @ createLabels [] (Some [bug])) bug \<noteq>
     ''GitHub Label: bug;GitHub Issue #42;''\<close>
  by code_simp

end
